theory Spec2Isabelle
  imports Main "HOL-Library.AList"
begin

section \<open>Values of the host language\<close>

text \<open>
  Exceptions are values.  \<open>Error\<close> is what \<^verbatim>\<open>throw new Error(msg)\<close> raises,
  \<open>TypeError\<close> is what the runtime raises when a property of \<^verbatim>\<open>null\<close> or
  \<^verbatim>\<open>undefined\<close> is read, \<open>SyntaxError\<close> what \<^verbatim>\<open>BigInt\<close> raises on a string
  that is no numeral.
\<close>

datatype error = Error string | TypeError string | SyntaxError string

fun message :: "error \<Rightarrow> string" where
  "message (Error m) = m"
| "message (TypeError m) = m"
| "message (SyntaxError m) = m"

subsection \<open>Decimal rendering of integers\<close>

text \<open>\<^verbatim>\<open>BigInt.prototype.toString()\<close> and the rendering of an integral number inside
  a template literal: decimal digits, most significant first, a leading minus sign for a
  negative value.\<close>

definition digit_char :: "nat \<Rightarrow> char" where
  "digit_char d = ''0123456789'' ! d"

function show_nat :: "nat \<Rightarrow> string" where
  "show_nat n = (if n < 10 then [digit_char n] else show_nat (n div 10) @ [digit_char (n mod 10)])"
  by pat_completeness auto
termination
  by (relation "measure (\<lambda>n. n)") auto

declare show_nat.simps [simp del]

definition show_int :: "int \<Rightarrow> string" where
  "show_int i = (if i < 0 then CHR ''-'' # show_nat (nat (- i)) else show_nat (nat i))"

section \<open>ChainRegistry: the static catalogue and the client map\<close>

record ChainConfig =
  name :: string
  url :: string
  supportsTraces :: bool

definition SUPPORTED_CHAINS :: "(int \<times> ChainConfig) list" where
  "SUPPORTED_CHAINS = [
    (1, \<lparr>name = ''Ethereum Mainnet'', url = ''https://eth.hypersync.xyz'', supportsTraces = True\<rparr>),
    (10, \<lparr>name = ''Optimism'', url = ''https://optimism.hypersync.xyz'', supportsTraces = False\<rparr>),
    (14, \<lparr>name = ''Flare'', url = ''https://flare.hypersync.xyz'', supportsTraces = False\<rparr>),
    (30, \<lparr>name = ''Rootstock'', url = ''https://rootstock.hypersync.xyz'', supportsTraces = False\<rparr>),
    (42, \<lparr>name = ''Lukso'', url = ''https://lukso.hypersync.xyz'', supportsTraces = False\<rparr>),
    (44, \<lparr>name = ''Crab'', url = ''https://crab.hypersync.xyz'', supportsTraces = False\<rparr>),
    (46, \<lparr>name = ''Darwinia'', url = ''https://darwinia.hypersync.xyz'', supportsTraces = True\<rparr>),
    (56, \<lparr>name = ''BSC'', url = ''https://bsc.hypersync.xyz'', supportsTraces = False\<rparr>),
    (97, \<lparr>name = ''BSC Testnet'', url = ''https://bsc-testnet.hypersync.xyz'', supportsTraces = False\<rparr>),
    (100, \<lparr>name = ''Gnosis'', url = ''https://gnosis.hypersync.xyz'', supportsTraces = False\<rparr>),
    (130, \<lparr>name = ''Unichain'', url = ''https://unichain.hypersync.xyz'', supportsTraces = False\<rparr>),
    (137, \<lparr>name = ''Polygon'', url = ''https://polygon.hypersync.xyz'', supportsTraces = False\<rparr>),
    (148, \<lparr>name = ''Shimmer EVM'', url = ''https://shimmer-evm.hypersync.xyz'', supportsTraces = False\<rparr>),
    (169, \<lparr>name = ''Manta'', url = ''https://manta.hypersync.xyz'', supportsTraces = False\<rparr>),
    (204, \<lparr>name = ''opBNB'', url = ''https://opbnb.hypersync.xyz'', supportsTraces = False\<rparr>),
    (250, \<lparr>name = ''Fantom'', url = ''https://fantom.hypersync.xyz'', supportsTraces = False\<rparr>),
    (252, \<lparr>name = ''Fraxtal'', url = ''https://fraxtal.hypersync.xyz'', supportsTraces = False\<rparr>),
    (255, \<lparr>name = ''Kroma'', url = ''https://kroma.hypersync.xyz'', supportsTraces = False\<rparr>),
    (288, \<lparr>name = ''Boba'', url = ''https://boba.hypersync.xyz'', supportsTraces = False\<rparr>),
    (324, \<lparr>name = ''ZKSync'', url = ''https://zksync.hypersync.xyz'', supportsTraces = False\<rparr>),
    (1088, \<lparr>name = ''Metis'', url = ''https://metis.hypersync.xyz'', supportsTraces = False\<rparr>),
    (1101, \<lparr>name = ''Polygon zkEVM'', url = ''https://polygon-zkevm.hypersync.xyz'', supportsTraces = False\<rparr>),
    (1135, \<lparr>name = ''Lisk'', url = ''https://lisk.hypersync.xyz'', supportsTraces = False\<rparr>),
    (1284, \<lparr>name = ''Moonbeam'', url = ''https://moonbeam.hypersync.xyz'', supportsTraces = False\<rparr>),
    (1287, \<lparr>name = ''Moonbase Alpha'', url = ''https://moonbase-alpha.hypersync.xyz'', supportsTraces = False\<rparr>),
    (1301, \<lparr>name = ''Unichain Sepolia'', url = ''https://unichain-sepolia.hypersync.xyz'', supportsTraces = False\<rparr>),
    (1750, \<lparr>name = ''Metall2'', url = ''https://metall2.hypersync.xyz'', supportsTraces = False\<rparr>),
    (1868, \<lparr>name = ''Soneium'', url = ''https://soneium.hypersync.xyz'', supportsTraces = False\<rparr>),
    (2818, \<lparr>name = ''Morph'', url = ''https://morph.hypersync.xyz'', supportsTraces = False\<rparr>),
    (4200, \<lparr>name = ''Merlin'', url = ''https://merlin.hypersync.xyz'', supportsTraces = False\<rparr>),
    (4201, \<lparr>name = ''Lukso Testnet'', url = ''https://lukso-testnet.hypersync.xyz'', supportsTraces = False\<rparr>),
    (5000, \<lparr>name = ''Mantle'', url = ''https://mantle.hypersync.xyz'', supportsTraces = False\<rparr>),
    (5115, \<lparr>name = ''Citrea Testnet'', url = ''https://citrea-testnet.hypersync.xyz'', supportsTraces = False\<rparr>),
    (7000, \<lparr>name = ''Zeta'', url = ''https://zeta.hypersync.xyz'', supportsTraces = False\<rparr>),
    (7560, \<lparr>name = ''Cyber'', url = ''https://cyber.hypersync.xyz'', supportsTraces = False\<rparr>),
    (8453, \<lparr>name = ''Base'', url = ''https://base.hypersync.xyz'', supportsTraces = False\<rparr>),
    (8888, \<lparr>name = ''Chiliz'', url = ''https://chiliz.hypersync.xyz'', supportsTraces = False\<rparr>),
    (10143, \<lparr>name = ''Monad Testnet'', url = ''https://monad-testnet.hypersync.xyz'', supportsTraces = False\<rparr>),
    (10200, \<lparr>name = ''Gnosis Chiado'', url = ''https://gnosis-chiado.hypersync.xyz'', supportsTraces = False\<rparr>),
    (11155111, \<lparr>name = ''Sepolia'', url = ''https://sepolia.hypersync.xyz'', supportsTraces = False\<rparr>),
    (11155420, \<lparr>name = ''Optimism Sepolia'', url = ''https://optimism-sepolia.hypersync.xyz'', supportsTraces = False\<rparr>),
    (17000, \<lparr>name = ''Holesky'', url = ''https://holesky.hypersync.xyz'', supportsTraces = False\<rparr>),
    (17864, \<lparr>name = ''MEV Commit'', url = ''https://mev-commit.hypersync.xyz'', supportsTraces = False\<rparr>),
    (34443, \<lparr>name = ''Mode'', url = ''https://mode.hypersync.xyz'', supportsTraces = False\<rparr>),
    (42161, \<lparr>name = ''Arbitrum'', url = ''https://arbitrum.hypersync.xyz'', supportsTraces = False\<rparr>),
    (42170, \<lparr>name = ''Arbitrum Nova'', url = ''https://arbitrum-nova.hypersync.xyz'', supportsTraces = False\<rparr>),
    (42220, \<lparr>name = ''Celo'', url = ''https://celo.hypersync.xyz'', supportsTraces = False\<rparr>),
    (43114, \<lparr>name = ''Avalanche'', url = ''https://avalanche.hypersync.xyz'', supportsTraces = False\<rparr>),
    (43113, \<lparr>name = ''Fuji'', url = ''https://fuji.hypersync.xyz'', supportsTraces = False\<rparr>),
    (48900, \<lparr>name = ''Zircuit'', url = ''https://zircuit.hypersync.xyz'', supportsTraces = False\<rparr>),
    (50104, \<lparr>name = ''Sophon'', url = ''https://sophon.hypersync.xyz'', supportsTraces = False\<rparr>),
    (57073, \<lparr>name = ''Ink'', url = ''https://ink.hypersync.xyz'', supportsTraces = False\<rparr>),
    (59144, \<lparr>name = ''Linea'', url = ''https://linea.hypersync.xyz'', supportsTraces = False\<rparr>),
    (80002, \<lparr>name = ''Polygon Amoy'', url = ''https://polygon-amoy.hypersync.xyz'', supportsTraces = False\<rparr>),
    (80084, \<lparr>name = ''Berachain Bartio'', url = ''https://berachain-bartio.hypersync.xyz'', supportsTraces = False\<rparr>),
    (80094, \<lparr>name = ''Berachain'', url = ''https://berachain.hypersync.xyz'', supportsTraces = False\<rparr>),
    (81457, \<lparr>name = ''Blast'', url = ''https://blast.hypersync.xyz'', supportsTraces = False\<rparr>),
    (84532, \<lparr>name = ''Base Sepolia'', url = ''https://base-sepolia.hypersync.xyz'', supportsTraces = False\<rparr>),
    (168587773, \<lparr>name = ''Blast Sepolia'', url = ''https://blast-sepolia.hypersync.xyz'', supportsTraces = False\<rparr>),
    (283027429, \<lparr>name = ''Extrabud'', url = ''https://extrabud.hypersync.xyz'', supportsTraces = False\<rparr>),
    (421614, \<lparr>name = ''Arbitrum Sepolia'', url = ''https://arbitrum-sepolia.hypersync.xyz'', supportsTraces = False\<rparr>),
    (531050104, \<lparr>name = ''Sophon Testnet'', url = ''https://sophon-testnet.hypersync.xyz'', supportsTraces = False\<rparr>),
    (534352, \<lparr>name = ''Scroll'', url = ''https://scroll.hypersync.xyz'', supportsTraces = False\<rparr>),
    (696969, \<lparr>name = ''Galadriel Devnet'', url = ''https://galadriel-devnet.hypersync.xyz'', supportsTraces = False\<rparr>),
    (1313161554, \<lparr>name = ''Aurora'', url = ''https://aurora.hypersync.xyz'', supportsTraces = False\<rparr>),
    (1666600000, \<lparr>name = ''Harmony Shard 0'', url = ''https://harmony-shard-0.hypersync.xyz'', supportsTraces = False\<rparr>),
    (7225878, \<lparr>name = ''Saakuru'', url = ''https://saakuru.hypersync.xyz'', supportsTraces = False\<rparr>),
    (7777777, \<lparr>name = ''Zora'', url = ''https://zora.hypersync.xyz'', supportsTraces = False\<rparr>)
  ]"

text \<open>A client handle and the decoder are objects: \<open>client_id\<close> and \<open>decoder_id\<close>
  stand for the identity of the object, taken from the count of objects constructed so
  far, so that two handles built by two calls of \<^verbatim>\<open>HypersyncClient.new\<close> differ.\<close>

record HypersyncClient =
  client_id :: nat
  client_url :: string
  bearerToken :: string

record Decoder =
  decoder_id :: nat
  signatures :: "string list"

text \<open>The static fields \<^verbatim>\<open>clients\<close> (a Map, kept in insertion order) and
  \<^verbatim>\<open>decoder\<close> (unset until the first client is made).\<close>

record registry =
  clients :: "(int \<times> HypersyncClient) list"
  decoder :: "Decoder option"
  constructed :: nat

definition empty_registry :: registry where
  "empty_registry = \<lparr>clients = [], decoder = None, constructed = 0\<rparr>"

definition EVENT_SIGNATURES :: "string list" where
  "EVENT_SIGNATURES = [
    ''Transfer(address indexed from, address indexed to, uint256 amount)'',
    ''Transfer(address indexed from, address indexed to, uint256 indexed tokenId)'',
    ''TransferSingle(address indexed operator, address indexed from, address indexed to, uint256 id, uint256 value)'',
    ''TransferBatch(address indexed operator, address indexed from, address indexed to, uint256[] ids, uint256[] values)'',
    ''Approval(address indexed owner, address indexed spender, uint256 value)'',
    ''ApprovalForAll(address indexed owner, address indexed operator, bool approved)'']"

text \<open>\<^verbatim>\<open>process.env.HYPERSYNC_API_KEY || "your_api_key"\<close>: an unset or empty variable
  gives the placeholder.\<close>

definition api_key_or_default :: "string option \<Rightarrow> string" where
  "api_key_or_default k = (case k of None \<Rightarrow> ''your_api_key'' | Some s \<Rightarrow> if s = [] then ''your_api_key'' else s)"

text \<open>\<^verbatim>\<open>initialize(chainId)\<close>.  A chain id is an integer.  The result pairs the
  outcome with the registry after the call; the throw happens before anything is
  written.\<close>

definition initialize :: "string option \<Rightarrow> int \<Rightarrow> registry \<Rightarrow> (error + unit) \<times> registry" where
  "initialize api_key chainId s =
    (case map_of SUPPORTED_CHAINS chainId of
       None \<Rightarrow> (Inl (Error (''Chain ID '' @ show_int chainId @ '' is not supported'')), s)
     | Some cfg \<Rightarrow>
        (if map_of (clients s) chainId = None then
           (let c = \<lparr>client_id = constructed s, client_url = url cfg,
                     bearerToken = api_key_or_default api_key\<rparr>;
                s1 = s\<lparr>clients := AList.update chainId c (clients s),
                       constructed := constructed s + 1\<rparr>
            in (if decoder s1 = None then
                  (Inr (), s1\<lparr>decoder := Some \<lparr>decoder_id = constructed s1, signatures = EVENT_SIGNATURES\<rparr>,
                               constructed := constructed s1 + 1\<rparr>)
                else (Inr (), s1)))
         else (Inr (), s)))"

definition getClient :: "int \<Rightarrow> registry \<Rightarrow> error + HypersyncClient" where
  "getClient chainId s =
    (case map_of (clients s) chainId of
       None \<Rightarrow> Inl (Error (''Client for chain ID '' @ show_int chainId @ '' not initialized''))
     | Some c \<Rightarrow> Inr c)"

section \<open>Strings, hex data and the padding of an address\<close>

definition toLowerCase_char :: "char \<Rightarrow> char" where
  "toLowerCase_char c =
    (case map_of (zip ''ABCDEFGHIJKLMNOPQRSTUVWXYZ'' ''abcdefghijklmnopqrstuvwxyz'') c of
       Some d \<Rightarrow> d
     | None \<Rightarrow> c)"

definition toLowerCase :: "string \<Rightarrow> string" where
  "toLowerCase s = map toLowerCase_char s"

definition isHexDigit :: "char \<Rightarrow> bool" where
  "isHexDigit c = (c \<in> set ''0123456789abcdefABCDEF'')"

text \<open>The library's test for a hex data string, the regular expression
  \<^verbatim>\<open>/^0x(?:[0-9a-f][0-9a-f])*$/i\<close>: the prefix and then whole bytes.\<close>

definition isBytesLike :: "string \<Rightarrow> bool" where
  "isBytesLike data =
    (case data of
       c0 # cx # hex \<Rightarrow>
         c0 = CHR ''0'' \<and> (cx = CHR ''x'' \<or> cx = CHR ''X'') \<and> even (length hex) \<and> list_all isHexDigit hex
     | _ \<Rightarrow> False)"

text \<open>
  Modelled from the spec: \<^verbatim>\<open>ethers.zeroPadValue\<close> belongs to a library outside the
  repository.  The spec calls its result the "32-byte left-zero-padded wallet address";
  the definition follows that and the library's documented contract: the argument must be
  a hex data string, must not be longer than the requested length, and the answer is the
  lower-case hex string of the bytes with zero bytes put in front.
\<close>

definition zeroPadValue :: "string \<Rightarrow> nat \<Rightarrow> error + string" where
  "zeroPadValue data len =
    (if \<not> isBytesLike data then Inl (TypeError ''invalid BytesLike value'')
     else if len < length (drop 2 data) div 2 then Inl (Error ''padding exceeds data length'')
     else Inr (''0x'' @ replicate (2 * (len - length (drop 2 data) div 2)) CHR ''0''
                 @ toLowerCase (drop 2 data)))"

section \<open>EventCatalog\<close>

definition ERC20_TRANSFER_TOPIC :: string where
  "ERC20_TRANSFER_TOPIC = ''0xddf252ad1be2c89b69c2b068fc378daa952ba7f163c4a11628f55a4df523b3ef''"

definition ERC721_TRANSFER_TOPIC :: string where
  "ERC721_TRANSFER_TOPIC = ''0xddf252ad1be2c89b69c2b068fc378daa952ba7f163c4a11628f55a4df523b3ef''"

definition ERC1155_TRANSFER_SINGLE_TOPIC :: string where
  "ERC1155_TRANSFER_SINGLE_TOPIC = ''0xc3d58168c5ae7397731d063d5bbf3d657854427343f4c083240f7aacaa2d0f62''"

definition ERC1155_TRANSFER_BATCH_TOPIC :: string where
  "ERC1155_TRANSFER_BATCH_TOPIC = ''0x4a39dc06d4c0dbc64b70af90fd698a233a518aa5d07e595d983b8c0526c8f7fb''"

definition ERC20_INTERFACES :: "(string \<times> string) list" where
  "ERC20_INTERFACES = [
    (''name'', ''0x06fdde03''),
    (''symbol'', ''0x95d89b41''),
    (''decimals'', ''0x313ce567''),
    (''totalSupply'', ''0x18160ddd'')]"

definition SWAP_EVENT_SIGNATURES :: "string list" where
  "SWAP_EVENT_SIGNATURES = [
    ''Swap(address indexed sender, uint256 amount0In, uint256 amount1In, uint256 amount0Out, uint256 amount1Out, address indexed to)'',
    ''Swap(address indexed sender, address indexed recipient, int256 amount0, int256 amount1, uint160 sqrtPriceX96, uint128 liquidity, int24 tick)'']"

section \<open>Queries, responses and the two collaborators\<close>

text \<open>A column list of the field selection: the columns named one by one, or all the
  values of the library's enumeration (\<^verbatim>\<open>Object.values(LogField)\<close> and the like).\<close>

datatype columns = Columns "string list" | AllColumns

record FieldSelection =
  fs_log :: "columns option"
  fs_block :: "columns option"
  fs_transaction :: "columns option"

text \<open>A topic filter has one entry per topic position: the admitted values, or
  \<open>None\<close> for \<^verbatim>\<open>null\<close>, a position left unconstrained.\<close>

record LogSelection =
  sel_address :: "string list option"
  sel_topics :: "string list option list option"

record TransactionSelection =
  sel_hash :: "string list option"
  sel_to :: "string list option"
  sel_from :: "string list option"
  sel_input :: "string list option"

record Query =
  fromBlock :: int
  toBlock :: "int option"
  fieldSelection :: FieldSelection
  logs :: "LogSelection list option"
  transactions :: "TransactionSelection list option"

text \<open>\<^verbatim>\<open>fromBlock || 0\<close> for an optional number: absent and zero both give zero.\<close>

definition fromBlock_or_0 :: "int option \<Rightarrow> int" where
  "fromBlock_or_0 fb = (case fb of None \<Rightarrow> 0 | Some n \<Rightarrow> if n = 0 then 0 else n)"

text \<open>What the code reads of a returned transaction and of a response; \<open>'r\<close> is the
  type of a raw log, which only the decoder looks into.\<close>

record Transaction =
  tx_output :: "string option"

record 'r QueryResponse =
  data_logs :: "'r list"
  data_transactions :: "Transaction list option"
  archiveHeight :: int

text \<open>
  The decoder is the library's.  Its declaration gives a decoded event two arrays,
  \<^verbatim>\<open>indexed\<close> and \<^verbatim>\<open>body\<close>, and nothing else; an entry of either is an object with
  the one property \<^verbatim>\<open>val\<close>, which holds a bigint, a boolean, a string or an array of
  such entries.  A value of \<open>DecodedSolValue\<close> is such an entry, named after what its
  \<^verbatim>\<open>val\<close> holds.  An entry of a decoded batch is \<open>None\<close> for \<^verbatim>\<open>null\<close>.
\<close>

datatype DecodedSolValue =
    BigIntVal int
  | BoolVal bool
  | StringVal string
  | ArrayVal "DecodedSolValue list"

record DecodedEvent =
  indexed :: "DecodedSolValue list"
  body :: "DecodedSolValue list"

text \<open>
  The emitting contract, the topics, the transaction hash, the block number and the
  timestamp stay with the raw log.  The code reads them off the decoded event all the same
  (\<^verbatim>\<open>log.address\<close>, \<^verbatim>\<open>log.topic0\<close>, \<^verbatim>\<open>log.transactionHash\<close>,
  \<^verbatim>\<open>log.blockNumber\<close>, \<^verbatim>\<open>log.timestamp\<close>): each is the read of a property the
  object does not have, and gives \<^verbatim>\<open>undefined\<close>, here \<open>None\<close>.
\<close>

definition log_address :: "DecodedEvent \<Rightarrow> string option" where
  "log_address log = None"

definition log_topic0 :: "DecodedEvent \<Rightarrow> string option" where
  "log_topic0 log = None"

definition log_transactionHash :: "DecodedEvent \<Rightarrow> string option" where
  "log_transactionHash log = None"

definition log_blockNumber :: "DecodedEvent \<Rightarrow> int option" where
  "log_blockNumber log = None"

definition log_timestamp :: "DecodedEvent \<Rightarrow> int option" where
  "log_timestamp log = None"

text \<open>The string of an entry (an object): \<^verbatim>\<open>String(entry)\<close>, \<^verbatim>\<open>entry.toString()\<close>
  and the entry inside a template literal.\<close>

definition object_string :: string where
  "object_string = ''[object Object]''"

fun join_commas :: "string list \<Rightarrow> string" where
  "join_commas [] = []"
| "join_commas [x] = x"
| "join_commas (x # y # rest) = x @ '','' @ join_commas (y # rest)"

text \<open>The string of an array of entries: the strings of its elements with commas
  between.\<close>

definition array_string :: "DecodedSolValue list \<Rightarrow> string" where
  "array_string xs = join_commas (map (\<lambda>x. object_string) xs)"

text \<open>A property read inside a template literal: \<^verbatim>\<open>undefined\<close> is rendered as that
  word.\<close>

definition template_string :: "string option \<Rightarrow> string" where
  "template_string p = (case p of None \<Rightarrow> ''undefined'' | Some s \<Rightarrow> s)"

text \<open>The query service, the decoder and the hash of a signature are outside the
  repository; they are parameters.  Each may fail.\<close>

record 'r env =
  api_key :: "string option"
  get :: "HypersyncClient \<Rightarrow> Query \<Rightarrow> error + 'r QueryResponse"
  decodeLogs :: "Decoder \<Rightarrow> 'r list \<Rightarrow> error + DecodedEvent option list"
  ethers_id :: "string \<Rightarrow> string"

text \<open>\<^verbatim>\<open>this.decoder.decodeLogs(logs)\<close>: a decoder that was never set is
  \<^verbatim>\<open>undefined\<close>, and the call on it a type error.\<close>

definition decoder_decodeLogs :: "'r env \<Rightarrow> registry \<Rightarrow> 'r list \<Rightarrow> error + DecodedEvent option list" where
  "decoder_decodeLogs env s raw =
    (case decoder s of
       None \<Rightarrow> Inl (TypeError ''Cannot read properties of undefined (reading decodeLogs)'')
     | Some d \<Rightarrow> decodeLogs env d raw)"

section \<open>BalanceAggregator: getTokenBalances\<close>

text \<open>
  What the Map of balances holds is declared a bigint, and is one as long as every amount
  read is one.  The cast \<^verbatim>\<open>log.body[0].val as bigint\<close> checks nothing: on a string,
  or an array, \<^verbatim>\<open>+\<close> concatenates, and the Map holds a string from then on.
\<close>

datatype js_sum = BigIntSum int | StringSum string

record TokenBalance =
  token :: "string option"
  balance :: js_sum

definition getTokenBalances_query :: "string \<Rightarrow> int option \<Rightarrow> Query" where
  "getTokenBalances_query paddedAddress fb =
    \<lparr>fromBlock = fromBlock_or_0 fb,
     toBlock = None,
     fieldSelection = \<lparr>fs_log = Some (Columns [''Address'', ''Data'', ''Topic0'', ''Topic1'', ''Topic2'', ''BlockNumber'']),
                       fs_block = Some (Columns [''Timestamp'']),
                       fs_transaction = None\<rparr>,
     logs = Some [\<lparr>sel_address = None,
                   sel_topics = Some [Some [ERC20_TRANSFER_TOPIC], None, Some [paddedAddress]]\<rparr>],
     transactions = None\<rparr>"

text \<open>\<^verbatim>\<open>balances.get(token) || BigInt(0)\<close>: an absent entry, a zero and an empty
  string all give zero.\<close>

definition get_or_0 :: "(string option \<times> js_sum) list \<Rightarrow> string option \<Rightarrow> js_sum" where
  "get_or_0 balances k =
    (case map_of balances k of
       None \<Rightarrow> BigIntSum 0
     | Some (BigIntSum b) \<Rightarrow> if b = 0 then BigIntSum 0 else BigIntSum b
     | Some (StringSum t) \<Rightarrow> if t = [] then BigIntSum 0 else StringSum t)"

text \<open>\<^verbatim>\<open>(...) + amount\<close>, where \<open>amount\<close> is the \<^verbatim>\<open>val\<close> of an entry: two bigints
  are added; a bigint and a boolean is a type error; with a string on either side, or an
  array, both sides are turned into strings and joined.\<close>

fun add_val :: "js_sum \<Rightarrow> DecodedSolValue \<Rightarrow> error + js_sum" where
  "add_val (BigIntSum a) (BigIntVal n) = Inr (BigIntSum (a + n))"
| "add_val (BigIntSum a) (BoolVal b) = Inl (TypeError ''Cannot mix BigInt and other types, use explicit conversions'')"
| "add_val (BigIntSum a) (StringVal t) = Inr (StringSum (show_int a @ t))"
| "add_val (BigIntSum a) (ArrayVal xs) = Inr (StringSum (show_int a @ array_string xs))"
| "add_val (StringSum u) (BigIntVal n) = Inr (StringSum (u @ show_int n))"
| "add_val (StringSum u) (BoolVal b) = Inr (StringSum (u @ (if b then ''true'' else ''false'')))"
| "add_val (StringSum u) (StringVal t) = Inr (StringSum (u @ t))"
| "add_val (StringSum u) (ArrayVal xs) = Inr (StringSum (u @ array_string xs))"

text \<open>The loop over the decoded logs.  The Map is an association list in insertion
  order; \<^verbatim>\<open>set\<close> on a key that is there keeps its place.  The key is
  \<^verbatim>\<open>log.address\<close>.  Reading \<^verbatim>\<open>log.body[0].val\<close> of a log with no body field is a
  type error.\<close>

fun getTokenBalances_loop ::
  "(string option \<times> js_sum) list \<Rightarrow> DecodedEvent option list \<Rightarrow> error + (string option \<times> js_sum) list" where
  "getTokenBalances_loop balances [] = Inr balances"
| "getTokenBalances_loop balances (None # rest) = getTokenBalances_loop balances rest"
| "getTokenBalances_loop balances (Some log # rest) =
    (case body log of
       [] \<Rightarrow> Inl (TypeError ''Cannot read properties of undefined (reading val)'')
     | amount # _ \<Rightarrow>
         (case add_val (get_or_0 balances (log_address log)) amount of
            Inl e \<Rightarrow> Inl e
          | Inr acc \<Rightarrow>
              getTokenBalances_loop (AList.update (log_address log) acc balances) rest))"

definition getTokenBalances_entries :: "(string option \<times> js_sum) list \<Rightarrow> TokenBalance list" where
  "getTokenBalances_entries balances = map (\<lambda>(t, b). \<lparr>token = t, balance = b\<rparr>) balances"

text \<open>Lines 226 to 237: the fold of a decoded batch into the answer.\<close>

definition getTokenBalances_aggregate :: "DecodedEvent option list \<Rightarrow> error + TokenBalance list" where
  "getTokenBalances_aggregate decodedLogs =
    (case getTokenBalances_loop [] decodedLogs of
       Inl e \<Rightarrow> Inl e
     | Inr balances \<Rightarrow> Inr (getTokenBalances_entries balances))"

definition getTokenBalances ::
  "'r env \<Rightarrow> int \<Rightarrow> string \<Rightarrow> int option \<Rightarrow> registry \<Rightarrow> (error + TokenBalance list) \<times> registry" where
  "getTokenBalances env chainId walletAddress fb s =
    (case initialize (api_key env) chainId s of
       (Inl e, s1) \<Rightarrow> (Inl e, s1)
     | (Inr _, s1) \<Rightarrow>
        (case zeroPadValue (toLowerCase walletAddress) 32 of
           Inl e \<Rightarrow> (Inl e, s1)
         | Inr paddedAddress \<Rightarrow>
            (case getClient chainId s1 of
               Inl e \<Rightarrow> (Inl e, s1)
             | Inr client \<Rightarrow>
                (case get env client (getTokenBalances_query paddedAddress fb) of
                   Inl e \<Rightarrow> (Inl e, s1)
                 | Inr response \<Rightarrow>
                    (case decoder_decodeLogs env s1 (data_logs response) of
                       Inl e \<Rightarrow> (Inl e, s1)
                     | Inr decodedLogs \<Rightarrow> (getTokenBalances_aggregate decodedLogs, s1))))))"

section \<open>NFTOwnershipTracker: getNFTBalances\<close>

datatype nft_standard = ERC721 | ERC1155

text \<open>The \<open>balance\<close> of a holding is declared a bigint.  The ERC721 branch stores
  \<^verbatim>\<open>BigInt(1)\<close>; the ERC1155 branch stores \<^verbatim>\<open>log.body[1]\<close> as it is, an entry, or
  \<^verbatim>\<open>undefined\<close> when the log has no second body field.\<close>

datatype nft_held = HeldBigInt int | HeldEntry DecodedSolValue | HeldUndefined

record NFTBalance =
  contractAddress :: "string option"
  tokenId :: string
  standard :: nft_standard
  nft_balance :: nft_held

definition getNFTBalances_query :: "string \<Rightarrow> int option \<Rightarrow> Query" where
  "getNFTBalances_query paddedAddress fb =
    \<lparr>fromBlock = fromBlock_or_0 fb,
     toBlock = None,
     fieldSelection = \<lparr>fs_log = Some AllColumns,
                       fs_block = Some (Columns [''Timestamp'']),
                       fs_transaction = None\<rparr>,
     logs = Some [\<lparr>sel_address = None,
                   sel_topics = Some [Some [ERC721_TRANSFER_TOPIC], None, Some [paddedAddress]]\<rparr>,
                  \<lparr>sel_address = None,
                   sel_topics = Some [Some [ERC1155_TRANSFER_SINGLE_TOPIC, ERC1155_TRANSFER_BATCH_TOPIC],
                                      None, Some [paddedAddress]]\<rparr>],
     transactions = None\<rparr>"

text \<open>The key \<^verbatim>\<open>`${log.address}-${log.body[0]}`\<close>: the first body field is an entry
  and is rendered as an object is; a missing one is rendered as the word
  \<^verbatim>\<open>undefined\<close>.\<close>

definition nft_key :: "DecodedEvent \<Rightarrow> string" where
  "nft_key log =
    template_string (log_address log) @ ''-''
      @ (case body log of [] \<Rightarrow> ''undefined'' | v # _ \<Rightarrow> object_string)"

text \<open>The loop over the decoded logs.  The branch is chosen by \<^verbatim>\<open>log.topic0\<close>.
  \<^verbatim>\<open>log.body[0].toString()\<close> on a log with no body field is a type error, and on
  an entry it is the string of an object.  A log with any other first topic, or with
  none, changes nothing.\<close>

fun getNFTBalances_loop :: "(string \<times> NFTBalance) list \<Rightarrow> DecodedEvent option list \<Rightarrow> error + (string \<times> NFTBalance) list" where
  "getNFTBalances_loop nftBalances [] = Inr nftBalances"
| "getNFTBalances_loop nftBalances (None # rest) = getNFTBalances_loop nftBalances rest"
| "getNFTBalances_loop nftBalances (Some log # rest) =
    (if log_topic0 log = Some ERC721_TRANSFER_TOPIC then
       (case body log of
          [] \<Rightarrow> Inl (TypeError ''Cannot read properties of undefined (reading toString)'')
        | v # _ \<Rightarrow>
            getNFTBalances_loop
              (AList.update (nft_key log)
                 \<lparr>contractAddress = log_address log, tokenId = object_string, standard = ERC721,
                  nft_balance = HeldBigInt 1\<rparr> nftBalances) rest)
     else if log_topic0 log = Some ERC1155_TRANSFER_SINGLE_TOPIC then
       (case body log of
          [] \<Rightarrow> Inl (TypeError ''Cannot read properties of undefined (reading toString)'')
        | v # vs \<Rightarrow>
            getNFTBalances_loop
              (AList.update (nft_key log)
                 \<lparr>contractAddress = log_address log, tokenId = object_string, standard = ERC1155,
                  nft_balance = (case vs of [] \<Rightarrow> HeldUndefined | w # _ \<Rightarrow> HeldEntry w)\<rparr> nftBalances) rest)
     else getNFTBalances_loop nftBalances rest)"

text \<open>Lines 263 to 287: the fold of a decoded batch into the list of the Map's values.\<close>

definition getNFTBalances_aggregate :: "DecodedEvent option list \<Rightarrow> error + NFTBalance list" where
  "getNFTBalances_aggregate decodedLogs =
    (case getNFTBalances_loop [] decodedLogs of
       Inl e \<Rightarrow> Inl e
     | Inr nftBalances \<Rightarrow> Inr (map snd nftBalances))"

definition getNFTBalances ::
  "'r env \<Rightarrow> int \<Rightarrow> string \<Rightarrow> int option \<Rightarrow> registry \<Rightarrow> (error + NFTBalance list) \<times> registry" where
  "getNFTBalances env chainId walletAddress fb s =
    (case initialize (api_key env) chainId s of
       (Inl e, s1) \<Rightarrow> (Inl e, s1)
     | (Inr _, s1) \<Rightarrow>
        (case zeroPadValue (toLowerCase walletAddress) 32 of
           Inl e \<Rightarrow> (Inl e, s1)
         | Inr paddedAddress \<Rightarrow>
            (case getClient chainId s1 of
               Inl e \<Rightarrow> (Inl e, s1)
             | Inr client \<Rightarrow>
                (case get env client (getNFTBalances_query paddedAddress fb) of
                   Inl e \<Rightarrow> (Inl e, s1)
                 | Inr response \<Rightarrow>
                    (case decoder_decodeLogs env s1 (data_logs response) of
                       Inl e \<Rightarrow> (Inl e, s1)
                     | Inr decodedLogs \<Rightarrow> (getNFTBalances_aggregate decodedLogs, s1))))))"

section \<open>The tool layer: serializeBigInts\<close>

text \<open>A value as \<open>serializeBigInts\<close> tells values apart: a bigint, an array, a
  non-null object (its own enumerable properties in enumeration order), and everything
  else, which it returns as it is.\<close>

datatype js_value =
    JBigInt int
  | JArray "js_value list"
  | JObject "(string \<times> js_value) list"
  | JString string
  | JNumber int
  | JBool bool
  | JNull
  | JUndefined

fun serializeBigInts :: "js_value \<Rightarrow> js_value" where
  "serializeBigInts (JBigInt n) = JString (show_int n)"
| "serializeBigInts (JArray xs) = JArray (map serializeBigInts xs)"
| "serializeBigInts (JObject kvs) = JObject (map (\<lambda>(k, v). (k, serializeBigInts v)) kvs)"
| "serializeBigInts v = v"

subsection \<open>The way back, as the spec words it\<close>

text \<open>
  The repository only serializes; the round trip of the spec goes "back through string
  parsing", and these definitions follow those words.  \<open>parse_bigint\<close> reads a decimal
  numeral with an optional minus sign and fails on anything else; \<open>parseStringLeaves\<close>
  applies it to every string leaf of a structure and fails if one leaf does.
\<close>

definition isDigit :: "char \<Rightarrow> bool" where
  "isDigit c = (c \<in> set ''0123456789'')"

definition digit_val :: "char \<Rightarrow> nat" where
  "digit_val c = (case map_of (zip ''0123456789'' [0, 1, 2, 3, 4, 5, 6, 7, 8, 9]) c of Some d \<Rightarrow> d | None \<Rightarrow> 0)"

definition parse_nat :: "string \<Rightarrow> nat option" where
  "parse_nat s =
    (if s \<noteq> [] \<and> list_all isDigit s then Some (foldl (\<lambda>a c. 10 * a + digit_val c) 0 s) else None)"

definition parse_bigint :: "string \<Rightarrow> int option" where
  "parse_bigint s =
    (case s of
       [] \<Rightarrow> None
     | c # r \<Rightarrow> if c = CHR ''-'' then map_option (\<lambda>n. - int n) (parse_nat r)
                else map_option int (parse_nat s))"

fun those_pairs :: "(string \<times> js_value option) list \<Rightarrow> (string \<times> js_value) list option" where
  "those_pairs [] = Some []"
| "those_pairs ((k, None) # rest) = None"
| "those_pairs ((k, Some v) # rest) = map_option ((#) (k, v)) (those_pairs rest)"

fun parseStringLeaves :: "js_value \<Rightarrow> js_value option" where
  "parseStringLeaves (JString s) = map_option JBigInt (parse_bigint s)"
| "parseStringLeaves (JArray xs) = map_option JArray (those (map parseStringLeaves xs))"
| "parseStringLeaves (JObject kvs) =
     map_option JObject (those_pairs (map (\<lambda>(k, v). (k, parseStringLeaves v)) kvs))"
| "parseStringLeaves v = Some v"

text \<open>The structures of the round trip: objects, arrays and bigints, nothing else.\<close>

fun only_bigints :: "js_value \<Rightarrow> bool" where
  "only_bigints (JBigInt n) = True"
| "only_bigints (JArray xs) = list_all only_bigints xs"
| "only_bigints (JObject kvs) = list_all (\<lambda>(k, v). only_bigints v) kvs"
| "only_bigints v = False"

section \<open>getDexSwaps\<close>

text \<open>The first five fields are what the reads of the decoded event give.\<close>

record DexSwap =
  swap_transactionHash :: "string option"
  swap_blockNumber :: "int option"
  swap_timestamp :: "int option"
  tokenIn :: "string option"
  tokenOut :: "string option"
  amountIn :: int
  amountOut :: int
  sender :: string
  recipient :: string

definition getDexSwaps_query :: "'r env \<Rightarrow> string \<Rightarrow> int option \<Rightarrow> int option \<Rightarrow> Query" where
  "getDexSwaps_query env dexAddress fb tb =
    \<lparr>fromBlock = fromBlock_or_0 fb,
     toBlock = tb,
     fieldSelection = \<lparr>fs_log = Some AllColumns,
                       fs_block = Some (Columns [''Timestamp'']),
                       fs_transaction = Some (Columns [''Hash''])\<rparr>,
     logs = Some [\<lparr>sel_address = Some [dexAddress],
                   sel_topics = Some [Some (map (ethers_id env) SWAP_EVENT_SIGNATURES)]\<rparr>],
     transactions = None\<rparr>"

text \<open>\<^verbatim>\<open>decodedLogs.map(log => ({transactionHash: log.transactionHash, ...}))\<close>: the
  callback reads the fields of every entry, and reading a field of \<^verbatim>\<open>null\<close> is a type
  error that ends the call.\<close>

fun getDexSwaps_map :: "DecodedEvent option list \<Rightarrow> error + DexSwap list" where
  "getDexSwaps_map [] = Inr []"
| "getDexSwaps_map (None # rest) = Inl (TypeError ''Cannot read properties of null (reading transactionHash)'')"
| "getDexSwaps_map (Some log # rest) =
    (case getDexSwaps_map rest of
       Inl e \<Rightarrow> Inl e
     | Inr swaps \<Rightarrow>
         Inr (\<lparr>swap_transactionHash = log_transactionHash log,
               swap_blockNumber = log_blockNumber log,
               swap_timestamp = log_timestamp log,
               tokenIn = log_address log,
               tokenOut = log_address log,
               amountIn = 0,
               amountOut = 0,
               sender = ''0x'',
               recipient = ''0x''\<rparr> # swaps))"

definition getDexSwaps ::
  "'r env \<Rightarrow> int \<Rightarrow> string \<Rightarrow> int option \<Rightarrow> int option \<Rightarrow> string option \<Rightarrow> registry
     \<Rightarrow> (error + DexSwap list) \<times> registry" where
  "getDexSwaps env chainId dexAddress fb tb tokenAddress s =
    (case initialize (api_key env) chainId s of
       (Inl e, s1) \<Rightarrow> (Inl e, s1)
     | (Inr _, s1) \<Rightarrow>
        (case getClient chainId s1 of
           Inl e \<Rightarrow> (Inl e, s1)
         | Inr client \<Rightarrow>
            (case get env client (getDexSwaps_query env dexAddress fb tb) of
               Inl e \<Rightarrow> (Inl e, s1)
             | Inr response \<Rightarrow>
                (case decoder_decodeLogs env s1 (data_logs response) of
                   Inl e \<Rightarrow> (Inl e, s1)
                 | Inr decodedLogs \<Rightarrow> (getDexSwaps_map decodedLogs, s1)))))"

section \<open>MetadataProbe: getTokenMetadata\<close>

text \<open>\<open>md_decimals\<close> is a number: \<open>None\<close> stands for \<^verbatim>\<open>NaN\<close>.  The rounding of
  a large value to a double is left out.\<close>

record TokenMetadata =
  md_address :: string
  md_name :: string
  md_symbol :: string
  md_decimals :: "int option"
  md_totalSupply :: int

definition getTokenMetadata_queries :: "string \<Rightarrow> Query list" where
  "getTokenMetadata_queries tokenAddress =
    map (\<lambda>(field, selector).
          \<lparr>fromBlock = 0,
           toBlock = Some 1,
           fieldSelection = \<lparr>fs_log = None, fs_block = None,
                             fs_transaction = Some (Columns [''Input'', ''To'', ''Output''])\<rparr>,
           logs = None,
           transactions = Some [\<lparr>sel_hash = None, sel_to = Some [tokenAddress], sel_from = None,
                                  sel_input = Some [selector]\<rparr>]\<rparr>)
        ERC20_INTERFACES"

subsection \<open>The string and number primitives of the decoding\<close>

text \<open>\<^verbatim>\<open>String.prototype.slice(start, end)\<close>: a negative index counts from the end,
  and both are clipped to the string.\<close>

definition js_slice :: "string \<Rightarrow> int \<Rightarrow> int \<Rightarrow> string" where
  "js_slice s start fin =
    (let len = int (length s);
         from = (if start < 0 then max (len + start) 0 else min start len);
         to = (if fin < 0 then max (len + fin) 0 else min fin len)
     in take (nat (to - from)) (drop (nat from) s))"

definition isWhiteSpace :: "char \<Rightarrow> bool" where
  "isWhiteSpace c = (c \<in> set [CHR 0x20, CHR 0x09, CHR 0x0A, CHR 0x0B, CHR 0x0C, CHR 0x0D])"

definition hex_digit_val :: "char \<Rightarrow> nat" where
  "hex_digit_val c =
    (case map_of (zip ''0123456789abcdef'' [0, 1, 2, 3, 4, 5, 6, 7, 8, 9, 10, 11, 12, 13, 14, 15])
            (toLowerCase_char c) of
       Some d \<Rightarrow> d
     | None \<Rightarrow> 0)"

definition hex_value :: "string \<Rightarrow> nat" where
  "hex_value ds = foldl (\<lambda>a c. 16 * a + hex_digit_val c) 0 ds"

text \<open>\<^verbatim>\<open>parseInt(s, 16)\<close>: leading white space, a sign and a \<^verbatim>\<open>0x\<close> prefix are
  passed over, then the longest run of hex digits is read; no digit gives \<^verbatim>\<open>NaN\<close>.\<close>

definition parseInt16 :: "string \<Rightarrow> int option" where
  "parseInt16 s =
    (let s1 = dropWhile isWhiteSpace s;
         sign = (case s1 of c # _ \<Rightarrow> if c = CHR ''-'' then - 1 else 1 | [] \<Rightarrow> (1::int));
         s2 = (case s1 of c # r \<Rightarrow> if c = CHR ''-'' \<or> c = CHR ''+'' then r else s1 | [] \<Rightarrow> s1);
         s3 = (case s2 of c # x # r \<Rightarrow>
                 if c = CHR ''0'' \<and> (x = CHR ''x'' \<or> x = CHR ''X'') then r else s2
               | _ \<Rightarrow> s2);
         ds = takeWhile isHexDigit s3
     in if ds = [] then None else Some (sign * int (hex_value ds)))"

text \<open>\<^verbatim>\<open>BigInt('0x' + h)\<close>: white space at the end is dropped, what is left must be
  hex digits, at least one; anything else is a syntax error.\<close>

definition BigInt_0x :: "string \<Rightarrow> error + int" where
  "BigInt_0x h =
    (let t = rev (dropWhile isWhiteSpace (rev h))
     in if t \<noteq> [] \<and> list_all isHexDigit t then Inr (int (hex_value t))
        else Inl (SyntaxError (''Cannot convert 0x'' @ h @ '' to a BigInt'')))"

definition byte_char :: "nat \<Rightarrow> char" where
  "byte_char n = Char (odd n) (odd (n div 2)) (odd (n div 4)) (odd (n div 8))
                      (odd (n div 16)) (odd (n div 32)) (odd (n div 64)) (odd (n div 128))"

text \<open>\<^verbatim>\<open>Buffer.from(s, 'hex').toString('utf8')\<close>: whole pairs of hex digits are read up
  to the first pair that is not hex.  A string is its sequence of bytes here.\<close>

fun hex_to_utf8 :: "string \<Rightarrow> string" where
  "hex_to_utf8 (a # b # rest) =
    (if isHexDigit a \<and> isHexDigit b
     then byte_char (16 * hex_digit_val a + hex_digit_val b) # hex_to_utf8 rest
     else [])"
| "hex_to_utf8 _ = []"

subsection \<open>The loop over the responses\<close>

text \<open>The body of the \<^verbatim>\<open>switch (field)\<close> inside the inner \<^verbatim>\<open>try\<close>: the four
  cases, and no change for any other value of \<open>field\<close>.  Only the BigInt conversion can
  throw.\<close>

definition decode_field :: "string \<Rightarrow> string \<Rightarrow> TokenMetadata \<Rightarrow> error + TokenMetadata" where
  "decode_field field cleanOutput md =
    (if field = ''name'' \<or> field = ''symbol'' then
       (let len = parseInt16 (js_slice cleanOutput 64 128);
            stringData = (case len of
                            None \<Rightarrow> js_slice cleanOutput 128 0
                          | Some n \<Rightarrow> js_slice cleanOutput 128 (128 + n * 2));
            v = hex_to_utf8 stringData
        in Inr (if field = ''name'' then md\<lparr>md_name := v\<rparr> else md\<lparr>md_symbol := v\<rparr>))
     else if field = ''decimals'' then
       Inr (md\<lparr>md_decimals := parseInt16 (js_slice cleanOutput 0 64)\<rparr>)
     else if field = ''totalSupply'' then
       (case BigInt_0x (js_slice cleanOutput 0 64) of
          Inl e \<Rightarrow> Inl e
        | Inr n \<Rightarrow> Inr (md\<lparr>md_totalSupply := n\<rparr>))
     else Inr md)"

text \<open>\<^verbatim>\<open>response.data.transactions?.[0]?.output\<close>.\<close>

definition first_output :: "'r QueryResponse \<Rightarrow> string option" where
  "first_output response =
    (case data_transactions response of
       None \<Rightarrow> None
     | Some [] \<Rightarrow> None
     | Some (t # _) \<Rightarrow> tx_output t)"

text \<open>One round of the \<^verbatim>\<open>forEach\<close>, given the value of \<open>field\<close>: an output that is
  absent, empty or \<^verbatim>\<open>0x\<close> is passed over, and an exception of the decoding is caught
  and leaves the values as they were.\<close>

definition process_response :: "string \<Rightarrow> 'r QueryResponse \<Rightarrow> TokenMetadata \<Rightarrow> TokenMetadata" where
  "process_response field response md =
    (case first_output response of
       None \<Rightarrow> md
     | Some out \<Rightarrow>
         if out = [] \<or> out = ''0x'' then md
         else (case decode_field field (js_slice out 2 (int (length out))) md of
                 Inl e \<Rightarrow> md
               | Inr md' \<Rightarrow> md'))"

text \<open>\<^verbatim>\<open>const [field] = Object.keys(this.ERC20_INTERFACES)[index]\<close>: the right-hand side
  is one key, a string, and the array pattern takes its first element, which of a string
  is its first character.\<close>

definition field_of_index :: "nat \<Rightarrow> string" where
  "field_of_index index = take 1 (map fst ERC20_INTERFACES ! index)"

fun process_responses :: "nat \<Rightarrow> 'r QueryResponse list \<Rightarrow> TokenMetadata \<Rightarrow> TokenMetadata" where
  "process_responses index [] md = md"
| "process_responses index (response # rest) md =
     process_responses (index + 1) rest (process_response (field_of_index index) response md)"

text \<open>\<^verbatim>\<open>Promise.all\<close> over the calls: all the answers in order, or the failure of a
  call; of several failing calls the first of the list is taken.\<close>

fun promise_all :: "(error + 'a) list \<Rightarrow> error + 'a list" where
  "promise_all [] = Inr []"
| "promise_all (Inl e # rest) = Inl e"
| "promise_all (Inr x # rest) = (case promise_all rest of Inl e \<Rightarrow> Inl e | Inr xs \<Rightarrow> Inr (x # xs))"

definition default_metadata :: "string \<Rightarrow> TokenMetadata" where
  "default_metadata tokenAddress =
    \<lparr>md_address = tokenAddress, md_name = ''Unknown'', md_symbol = ''UNKNOWN'',
     md_decimals = Some 18, md_totalSupply = 0\<rparr>"

definition getTokenMetadata ::
  "'r env \<Rightarrow> int \<Rightarrow> string \<Rightarrow> registry \<Rightarrow> (error + TokenMetadata) \<times> registry" where
  "getTokenMetadata env chainId tokenAddress s =
    (case initialize (api_key env) chainId s of
       (Inl e, s1) \<Rightarrow> (Inl e, s1)
     | (Inr _, s1) \<Rightarrow>
        (case promise_all
                (map (\<lambda>query. case getClient chainId s1 of Inl e \<Rightarrow> Inl e | Inr client \<Rightarrow> get env client query)
                     (getTokenMetadata_queries tokenAddress)) of
           Inl e \<Rightarrow> (Inl (Error (''Failed to fetch token metadata: '' @ message e)), s1)
         | Inr responses \<Rightarrow> (Inr (process_responses 0 responses (default_metadata tokenAddress)), s1)))"

text \<open>An answer that carries no data for its field: no transaction, no output, the empty
  string, or the empty data \<^verbatim>\<open>0x\<close>.\<close>

definition empty_return :: "'r QueryResponse \<Rightarrow> bool" where
  "empty_return r = (first_output r = None \<or> first_output r = Some [] \<or> first_output r = Some ''0x'')"

section \<open>Example inputs\<close>

definition example_structure :: js_value where
  "example_structure =
    JObject [(''token'', JObject [(''balance'', JBigInt 18446744073709551617)]),
             (''amounts'', JArray [JBigInt (- 5), JBigInt 0, JArray []])]"

subsection \<open>Raw logs and a decoder for the examples\<close>

text \<open>What a raw log carries: the emitting contract, the topics and the data.\<close>

record RawLog =
  raw_address :: string
  raw_topics :: "string list"
  raw_data :: string

text \<open>A decoder for the examples.  It knows the two Transfer layouts of the signature
  list, three topics with the amount in the data and four topics with no data, and its
  answers have the shape of the library's: the decoded parameters, the indexed ones apart
  from the others, and nothing of the raw log.  Any other log is matched by no
  signature.\<close>

definition topic_address :: "string \<Rightarrow> string" where
  "topic_address t = ''0x'' @ drop 26 t"

definition example_decode :: "RawLog \<Rightarrow> DecodedEvent option" where
  "example_decode r =
    (case raw_topics r of
       [t0, f, t] \<Rightarrow>
         if t0 = ERC20_TRANSFER_TOPIC
         then Some \<lparr>indexed = [StringVal (topic_address f), StringVal (topic_address t)],
                     body = [BigIntVal (int (hex_value (drop 2 (raw_data r))))]\<rparr>
         else None
     | [t0, f, t, i] \<Rightarrow>
         if t0 = ERC721_TRANSFER_TOPIC
         then Some \<lparr>indexed = [StringVal (topic_address f), StringVal (topic_address t),
                                BigIntVal (int (hex_value (drop 2 i)))],
                     body = []\<rparr>
         else None
     | _ \<Rightarrow> None)"

text \<open>Three ERC20 Transfer logs to one wallet: 100 and 50 units from the token contract
  \<^verbatim>\<open>0xaaaa...\<close>, 7 units from the token contract \<^verbatim>\<open>0xbbbb...\<close>.\<close>

definition example_wallet_topic :: string where
  "example_wallet_topic = ''0x0000000000000000000000001111111111111111111111111111111111111111''"

definition example_sender_topic :: string where
  "example_sender_topic = ''0x0000000000000000000000002222222222222222222222222222222222222222''"

definition example_transfer_logs :: "RawLog list" where
  "example_transfer_logs =
    [\<lparr>raw_address = ''0xaaaaaaaaaaaaaaaaaaaaaaaaaaaaaaaaaaaaaaaa'',
      raw_topics = [ERC20_TRANSFER_TOPIC, example_sender_topic, example_wallet_topic],
      raw_data = ''0x0000000000000000000000000000000000000000000000000000000000000064''\<rparr>,
     \<lparr>raw_address = ''0xaaaaaaaaaaaaaaaaaaaaaaaaaaaaaaaaaaaaaaaa'',
      raw_topics = [ERC20_TRANSFER_TOPIC, example_sender_topic, example_wallet_topic],
      raw_data = ''0x0000000000000000000000000000000000000000000000000000000000000032''\<rparr>,
     \<lparr>raw_address = ''0xbbbbbbbbbbbbbbbbbbbbbbbbbbbbbbbbbbbbbbbb'',
      raw_topics = [ERC20_TRANSFER_TOPIC, example_sender_topic, example_wallet_topic],
      raw_data = ''0x0000000000000000000000000000000000000000000000000000000000000007''\<rparr>]"

definition example_transfer_env :: "RawLog env" where
  "example_transfer_env =
    \<lparr>api_key = None,
     get = (\<lambda>client q. Inr \<lparr>data_logs = example_transfer_logs, data_transactions = None,
                               archiveHeight = 100\<rparr>),
     decodeLogs = (\<lambda>d raw. Inr (map example_decode raw)),
     ethers_id = (\<lambda>sig. sig)\<rparr>"

text \<open>Two ERC721 Transfer logs to the wallet, both for token 5 of the contract
  \<^verbatim>\<open>0xcccc...\<close>.\<close>

definition example_nft_logs :: "RawLog list" where
  "example_nft_logs =
    [\<lparr>raw_address = ''0xcccccccccccccccccccccccccccccccccccccccc'',
      raw_topics = [ERC721_TRANSFER_TOPIC, example_sender_topic, example_wallet_topic,
                    ''0x0000000000000000000000000000000000000000000000000000000000000005''],
      raw_data = ''0x''\<rparr>,
     \<lparr>raw_address = ''0xcccccccccccccccccccccccccccccccccccccccc'',
      raw_topics = [ERC721_TRANSFER_TOPIC, example_wallet_topic, example_wallet_topic,
                    ''0x0000000000000000000000000000000000000000000000000000000000000005''],
      raw_data = ''0x''\<rparr>]"

definition example_nft_env :: "RawLog env" where
  "example_nft_env =
    \<lparr>api_key = None,
     get = (\<lambda>client q. Inr \<lparr>data_logs = example_nft_logs, data_transactions = None,
                               archiveHeight = 100\<rparr>),
     decodeLogs = (\<lambda>d raw. Inr (map example_decode raw)),
     ethers_id = (\<lambda>sig. sig)\<rparr>"

text \<open>A service that refuses exactly one query, the one written out here, and answers
  every other query with no logs.\<close>

definition example_probe_env :: "unit env" where
  "example_probe_env =
    \<lparr>api_key = None,
     get = (\<lambda>client q.
              if q = \<lparr>fromBlock = 18000000,
                      toBlock = None,
                      fieldSelection =
                        \<lparr>fs_log = Some (Columns [''Address'', ''Data'', ''Topic0'', ''Topic1'', ''Topic2'', ''BlockNumber'']),
                         fs_block = Some (Columns [''Timestamp'']),
                         fs_transaction = None\<rparr>,
                      logs = Some [\<lparr>sel_address = None,
                                    sel_topics = Some [Some [''0xddf252ad1be2c89b69c2b068fc378daa952ba7f163c4a11628f55a4df523b3ef''],
                                                       None,
                                                       Some [''0x000000000000000000000000a0b86991c6218b36c1d19d4a2e9eb0ce3606eb48'']]\<rparr>],
                      transactions = None\<rparr>
              then Inl (Error ''the query of the example'')
              else Inr \<lparr>data_logs = [], data_transactions = None, archiveHeight = 100\<rparr>),
     decodeLogs = (\<lambda>d raw. Inr (map (\<lambda>r. None) raw)),
     ethers_id = (\<lambda>sig. sig)\<rparr>"

subsection \<open>Stub services\<close>

text \<open>A service that answers every query with one raw log and a decoder that matches no
  signature, so that the decoded batch is one \<open>null\<close>.\<close>

definition example_null_env :: "unit env" where
  "example_null_env =
    \<lparr>api_key = None,
     get = (\<lambda>client q. Inr \<lparr>data_logs = [()], data_transactions = None, archiveHeight = 100\<rparr>),
     decodeLogs = (\<lambda>d raw. Inr (map (\<lambda>r. None) raw)),
     ethers_id = (\<lambda>sig. sig)\<rparr>"

text \<open>The selector a metadata query asks for.\<close>

definition query_selector :: "Query \<Rightarrow> string" where
  "query_selector q =
    (case transactions q of
       Some [t] \<Rightarrow> (case sel_input t of Some [selector] \<Rightarrow> selector | _ \<Rightarrow> [])
     | _ \<Rightarrow> [])"

text \<open>The ABI encoding of the string \<^verbatim>\<open>USDC\<close>: the offset word, the length word 4, and
  the four bytes padded to a word.\<close>

definition example_usdc_payload :: string where
  "example_usdc_payload =
    ''0x'' @ ''0000000000000000000000000000000000000000000000000000000000000020''
          @ ''0000000000000000000000000000000000000000000000000000000000000004''
          @ ''5553444300000000000000000000000000000000000000000000000000000000''"

text \<open>A service whose answer to the \<^verbatim>\<open>symbol\<close> call is that payload and whose other
  answers hold no transaction.\<close>

definition example_usdc_env :: "unit env" where
  "example_usdc_env =
    \<lparr>api_key = None,
     get = (\<lambda>client q.
              if query_selector q = ''0x95d89b41''
              then Inr \<lparr>data_logs = [], data_transactions = Some [\<lparr>tx_output = Some example_usdc_payload\<rparr>],
                        archiveHeight = 100\<rparr>
              else Inr \<lparr>data_logs = [], data_transactions = Some [], archiveHeight = 100\<rparr>),
     decodeLogs = (\<lambda>d raw. Inr (map (\<lambda>r. None) raw)),
     ethers_id = (\<lambda>sig. sig)\<rparr>"

text \<open>A service that fails on the \<^verbatim>\<open>decimals\<close> call only.\<close>

definition example_failing_env :: "unit env" where
  "example_failing_env =
    \<lparr>api_key = None,
     get = (\<lambda>client q.
              if query_selector q = ''0x313ce567''
              then Inl (Error ''request timed out'')
              else Inr \<lparr>data_logs = [], data_transactions = Some [], archiveHeight = 100\<rparr>),
     decodeLogs = (\<lambda>d raw. Inr (map (\<lambda>r. None) raw)),
     ethers_id = (\<lambda>sig. sig)\<rparr>"

text \<open>A service whose answer to the \<^verbatim>\<open>decimals\<close> call is the empty return \<^verbatim>\<open>0x\<close>.\<close>

definition example_empty_env :: "unit env" where
  "example_empty_env =
    \<lparr>api_key = None,
     get = (\<lambda>client q.
              if query_selector q = ''0x313ce567''
              then Inr \<lparr>data_logs = [], data_transactions = Some [\<lparr>tx_output = Some ''0x''\<rparr>],
                        archiveHeight = 100\<rparr>
              else Inr \<lparr>data_logs = [], data_transactions = None, archiveHeight = 100\<rparr>),
     decodeLogs = (\<lambda>d raw. Inr (map (\<lambda>r. None) raw)),
     ethers_id = (\<lambda>sig. sig)\<rparr>"

section \<open>Properties of the registry\<close>

lemma initialize_unsupported:
  assumes "map_of SUPPORTED_CHAINS chainId = None"
  shows "initialize k chainId s = (Inl (Error (''Chain ID '' @ show_int chainId @ '' is not supported'')), s)"
  using assms by (simp add: initialize_def)

lemma initialize_supported_ok:
  assumes "map_of SUPPORTED_CHAINS chainId = Some cfg"
  shows "fst (initialize k chainId s) = Inr ()"
  using assms by (simp add: initialize_def Let_def)

lemma initialize_caches:
  assumes "map_of SUPPORTED_CHAINS chainId = Some cfg"
  shows "map_of (clients (snd (initialize k chainId s))) chainId \<noteq> None"
  using assms by (simp add: initialize_def Let_def update_conv')

text \<open>
  C5.  For a chain id that the catalogue does not hold, \<open>initialize\<close> throws the
  unsupported-chain error and leaves the registry as it was: the client map is the same
  map, so no handle is cached for that chain id unless one was there before, and from the
  empty registry \<open>getClient\<close> still fails.
\<close>

theorem C5_unsupported_chain_fails_unchanged:
  assumes "chainId \<notin> fst ` set SUPPORTED_CHAINS"
  shows "fst (initialize k chainId s) = Inl (Error (''Chain ID '' @ show_int chainId @ '' is not supported''))
       \<and> snd (initialize k chainId s) = s
       \<and> clients (snd (initialize k chainId s)) = clients s
       \<and> map_of (clients (snd (initialize k chainId empty_registry))) chainId = None"
proof -
  from assms have "map_of SUPPORTED_CHAINS chainId = None"
    by (simp add: map_of_eq_None_iff)
  then show ?thesis
    by (simp add: initialize_unsupported empty_registry_def)
qed

theorem C5_unsupported_chain_witness:
  "(2::int) \<notin> fst ` set SUPPORTED_CHAINS
   \<and> fst (initialize None 2 empty_registry) = Inl (Error ''Chain ID 2 is not supported'')
   \<and> snd (initialize None 2 empty_registry) = empty_registry
   \<and> getClient 2 (snd (initialize None 2 empty_registry))
       = Inl (Error ''Client for chain ID 2 not initialized'')"
proof -
  have h: "(2::int) \<notin> fst ` set SUPPORTED_CHAINS"
    by (simp add: SUPPORTED_CHAINS_def)
  have sh: "show_int 2 = ''2''"
    by (simp add: show_int_def show_nat.simps digit_char_def)
  from C5_unsupported_chain_fails_unchanged [OF h, of None empty_registry] h sh
  show ?thesis
    by (simp add: getClient_def empty_registry_def)
qed

text \<open>
  C6.  For a chain id of the catalogue the first \<open>initialize\<close> succeeds, and a second
  call after it succeeds too and changes nothing: the registry after the second call is
  the registry after the first, so \<open>getClient\<close> answers with the same handle and the
  decoder is the same object (no further object has been constructed).
\<close>

theorem C6_initialize_idempotent:
  assumes "chainId \<in> fst ` set SUPPORTED_CHAINS"
  shows "fst (initialize k chainId s) = Inr ()
       \<and> fst (initialize k' chainId (snd (initialize k chainId s))) = Inr ()
       \<and> snd (initialize k' chainId (snd (initialize k chainId s))) = snd (initialize k chainId s)
       \<and> (\<exists>c. getClient chainId (snd (initialize k chainId s)) = Inr c
             \<and> getClient chainId (snd (initialize k' chainId (snd (initialize k chainId s)))) = Inr c)
       \<and> decoder (snd (initialize k' chainId (snd (initialize k chainId s))))
           = decoder (snd (initialize k chainId s))
       \<and> constructed (snd (initialize k' chainId (snd (initialize k chainId s))))
           = constructed (snd (initialize k chainId s))"
proof -
  from assms obtain cfg where cfg: "map_of SUPPORTED_CHAINS chainId = Some cfg"
    by (metis map_of_eq_None_iff not_Some_eq)
  let ?s1 = "snd (initialize k chainId s)"
  have ok1: "fst (initialize k chainId s) = Inr ()"
    using cfg by (rule initialize_supported_ok)
  have cached: "map_of (clients ?s1) chainId \<noteq> None"
    using cfg by (rule initialize_caches)
  then obtain c where c: "map_of (clients ?s1) chainId = Some c"
    by blast
  have second: "initialize k' chainId ?s1 = (Inr (), ?s1)"
    using cfg c by (simp add: initialize_def)
  have client: "getClient chainId ?s1 = Inr c"
    using c by (simp add: getClient_def)
  show ?thesis
    using ok1 second client by simp
qed

theorem C6_initialize_idempotent_witness:
  "(1::int) \<in> fst ` set SUPPORTED_CHAINS
   \<and> snd (initialize None 1 (snd (initialize None 1 empty_registry))) = snd (initialize None 1 empty_registry)
   \<and> getClient 1 (snd (initialize None 1 (snd (initialize None 1 empty_registry))))
       = Inr \<lparr>client_id = 0, client_url = ''https://eth.hypersync.xyz'', bearerToken = ''your_api_key''\<rparr>
   \<and> decoder (snd (initialize None 1 (snd (initialize None 1 empty_registry))))
       = Some \<lparr>decoder_id = 1, signatures = EVENT_SIGNATURES\<rparr>"
proof -
  have h: "(1::int) \<in> fst ` set SUPPORTED_CHAINS"
    by (simp add: SUPPORTED_CHAINS_def)
  have first: "snd (initialize None 1 empty_registry)
      = \<lparr>clients = [(1, \<lparr>client_id = 0, client_url = ''https://eth.hypersync.xyz'', bearerToken = ''your_api_key''\<rparr>)],
         decoder = Some \<lparr>decoder_id = 1, signatures = EVENT_SIGNATURES\<rparr>, constructed = 2\<rparr>"
    by (simp add: initialize_def SUPPORTED_CHAINS_def empty_registry_def api_key_or_default_def)
  from C6_initialize_idempotent [OF h, of None empty_registry None] h first
  show ?thesis
    by (simp add: getClient_def)
qed

section \<open>Decimal rendering and parsing\<close>

lemma digit_cases:
  assumes "d < (10::nat)"
  shows "d = 0 \<or> d = 1 \<or> d = 2 \<or> d = 3 \<or> d = 4 \<or> d = 5 \<or> d = 6 \<or> d = 7 \<or> d = 8 \<or> d = 9"
  using assms by arith

lemma digit_val_digit_char:
  assumes "d < 10"
  shows "digit_val (digit_char d) = d"
  using digit_cases [OF assms] by (elim disjE) (simp_all add: digit_val_def digit_char_def)

lemma isDigit_digit_char:
  assumes "d < 10"
  shows "isDigit (digit_char d)"
  using digit_cases [OF assms] by (elim disjE) (simp_all add: isDigit_def digit_char_def)

lemma show_nat_digits: "show_nat n \<noteq> [] \<and> list_all isDigit (show_nat n)"
proof (induction n rule: show_nat.induct)
  case (1 n)
  show ?case
  proof (cases "n < 10")
    case True
    then show ?thesis
      by (subst (1 2) show_nat.simps) (simp add: isDigit_digit_char)
  next
    case False
    with 1 show ?thesis
      by (subst (1 2) show_nat.simps) (simp add: isDigit_digit_char)
  qed
qed

lemma show_nat_value: "foldl (\<lambda>a c. 10 * a + digit_val c) 0 (show_nat n) = n"
proof (induction n rule: show_nat.induct)
  case (1 n)
  show ?case
  proof (cases "n < 10")
    case True
    then show ?thesis
      by (subst show_nat.simps) (simp add: digit_val_digit_char)
  next
    case False
    with 1 show ?thesis
      by (subst show_nat.simps) (simp add: digit_val_digit_char)
  qed
qed

lemma parse_nat_show_nat: "parse_nat (show_nat n) = Some n"
  using show_nat_digits [of n] by (simp add: parse_nat_def show_nat_value)

lemma isDigit_not_minus: "isDigit c \<Longrightarrow> c \<noteq> CHR ''-''"
  by (auto simp add: isDigit_def)

lemma parse_bigint_show_int: "parse_bigint (show_int i) = Some i"
proof (cases "i < 0")
  case True
  then show ?thesis
    by (simp add: parse_bigint_def show_int_def parse_nat_show_nat)
next
  case False
  obtain c cs where s: "show_nat (nat i) = c # cs"
    using show_nat_digits [of "nat i"] by (cases "show_nat (nat i)") auto
  with show_nat_digits [of "nat i"] have "c \<noteq> CHR ''-''"
    by (simp add: isDigit_not_minus)
  with False s parse_nat_show_nat [of "nat i"] show ?thesis
    by (simp add: parse_bigint_def show_int_def)
qed

lemma those_map_id:
  assumes "\<forall>x \<in> set xs. f x = Some x"
  shows "those (map f xs) = Some xs"
  using assms by (induction xs) auto

lemma those_pairs_map_id:
  assumes "\<forall>(k, v) \<in> set kvs. f v = Some v"
  shows "those_pairs (map (\<lambda>(k, v). (k, f v)) kvs) = Some kvs"
  using assms by (induction kvs) auto

section \<open>The round trip of serializeBigInts\<close>

text \<open>
  C9.  For a structure built of objects, arrays and arbitrary-precision integers only,
  \<open>serializeBigInts\<close> followed by the parsing of every string leaf gives the structure
  back, keys, order and integer values included.  The integers are unbounded, so values
  beyond the 64-bit range are covered.
\<close>

theorem C9_serialize_parse_roundtrip:
  "only_bigints v \<Longrightarrow> parseStringLeaves (serializeBigInts v) = Some v"
proof (induction v)
  case (JBigInt n)
  show ?case by (simp add: parse_bigint_show_int)
next
  case (JArray xs)
  then have "\<forall>x \<in> set xs. (parseStringLeaves \<circ> serializeBigInts) x = Some x"
    by (auto simp add: list_all_iff)
  then have "those (map (parseStringLeaves \<circ> serializeBigInts) xs) = Some xs"
    by (rule those_map_id)
  then show ?case by simp
next
  case (JObject kvs)
  then have "\<forall>(k, v) \<in> set kvs. (parseStringLeaves \<circ> serializeBigInts) v = Some v"
    by (fastforce simp add: list_all_iff)
  then have "those_pairs (map (\<lambda>(k, v). (k, (parseStringLeaves \<circ> serializeBigInts) v)) kvs) = Some kvs"
    by (rule those_pairs_map_id)
  then show ?case by (simp add: comp_def case_prod_unfold)
qed simp_all

theorem C9_serialize_parse_roundtrip_witness:
  "only_bigints example_structure
   \<and> serializeBigInts example_structure
       = JObject [(''token'', JObject [(''balance'', JString ''18446744073709551617'')]),
                  (''amounts'', JArray [JString ''-5'', JString ''0'', JArray []])]
   \<and> parseStringLeaves (serializeBigInts example_structure) = Some example_structure"
proof -
  have h: "only_bigints example_structure"
    by (simp add: example_structure_def)
  have s: "serializeBigInts example_structure
       = JObject [(''token'', JObject [(''balance'', JString ''18446744073709551617'')]),
                  (''amounts'', JArray [JString ''-5'', JString ''0'', JArray []])]"
    by (simp add: example_structure_def show_int_def show_nat.simps digit_char_def)
  from C9_serialize_parse_roundtrip [OF h] h s
  show ?thesis by simp
qed

section \<open>Evaluations on chain 1\<close>

lemma chain1_initialize: "initialize None 1 empty_registry =
   (Inr (), \<lparr>clients = [(1, \<lparr>client_id = 0, client_url = ''https://eth.hypersync.xyz'', bearerToken = ''your_api_key''\<rparr>)],
         decoder = Some \<lparr>decoder_id = 1, signatures = EVENT_SIGNATURES\<rparr>, constructed = 2\<rparr>)"
  by (simp add: initialize_def SUPPORTED_CHAINS_def empty_registry_def api_key_or_default_def)

lemma field_of_index_values:
  "field_of_index 0 = ''n''" "field_of_index (Suc 0) = ''s''"
  "field_of_index (Suc (Suc 0)) = ''d''" "field_of_index (Suc (Suc (Suc 0))) = ''t''"
  by (simp_all add: field_of_index_def ERC20_INTERFACES_def)

lemma wallet_pad: "zeroPadValue (toLowerCase ''0xAbCd'') 32 = Inr ''0x000000000000000000000000000000000000000000000000000000000000abcd''"
  by code_simp

section \<open>Null entries of a decoded batch\<close>

text \<open>
  C4.  The claim is that every derivation passes over the \<open>null\<close> entries of a decoded
  batch.  \<open>getTokenBalances\<close> and \<open>getNFTBalances\<close> do (\<^verbatim>\<open>if (!log) continue\<close>):
  on a batch that is one \<open>null\<close> both answer with the empty list.  \<open>getDexSwaps\<close> has no
  such test: on the same batch its callback reads \<^verbatim>\<open>log.transactionHash\<close> of
  \<open>null\<close>, and the call ends in a type error.
\<close>

theorem C4_getDexSwaps_throws_on_null:
  "fst (getDexSwaps example_null_env 1 ''0xAbCd'' None None None empty_registry)
     = Inl (TypeError ''Cannot read properties of null (reading transactionHash)'')
   \<and> fst (getTokenBalances example_null_env 1 ''0xAbCd'' None empty_registry) = Inr []
   \<and> fst (getNFTBalances example_null_env 1 ''0xAbCd'' None empty_registry) = Inr []"
  by (simp add: getDexSwaps_def getTokenBalances_def getNFTBalances_def example_null_env_def
        chain1_initialize wallet_pad getClient_def decoder_decodeLogs_def
        getTokenBalances_aggregate_def getTokenBalances_entries_def getNFTBalances_aggregate_def)

section \<open>The query of getTokenBalances\<close>

lemma toLowerCase_char_idem: "toLowerCase_char (toLowerCase_char c) = toLowerCase_char c"
  by (simp add: toLowerCase_char_def)

lemma toLowerCase_idem: "toLowerCase (toLowerCase s) = toLowerCase s"
  by (simp add: toLowerCase_def toLowerCase_char_idem)

lemma toLowerCase_drop: "toLowerCase (drop n s) = drop n (toLowerCase s)"
  by (simp add: toLowerCase_def drop_map)

lemma zeroPadValue_shape:
  assumes "zeroPadValue (toLowerCase walletAddress) 32 = Inr paddedAddress"
  shows "paddedAddress = ''0x'' @ replicate (64 - length (drop 2 walletAddress)) CHR ''0''
                           @ toLowerCase (drop 2 walletAddress)
         \<and> length paddedAddress = 66"
proof -
  define hex where "hex = drop 2 (toLowerCase walletAddress)"
  from assms have b: "isBytesLike (toLowerCase walletAddress)"
    and n: "length hex div 2 \<le> 32"
    and p: "paddedAddress = ''0x'' @ replicate (2 * (32 - length hex div 2)) CHR ''0'' @ toLowerCase hex"
    unfolding hex_def by (auto simp add: zeroPadValue_def split: if_splits)
  from b have "even (length hex)"
    unfolding hex_def by (auto simp add: isBytesLike_def split: list.splits)
  then obtain k where k: "length hex = 2 * k"
    by (rule evenE)
  with n have r: "2 * (32 - length hex div 2) = 64 - length hex" and le: "length hex \<le> 64"
    by simp_all
  have len: "length hex = length (drop 2 walletAddress)"
    unfolding hex_def by (simp add: toLowerCase_def)
  have low: "toLowerCase hex = toLowerCase (drop 2 walletAddress)"
    unfolding hex_def by (simp add: toLowerCase_drop [symmetric] toLowerCase_idem)
  from p r len low have shape: "paddedAddress = ''0x'' @ replicate (64 - length (drop 2 walletAddress)) CHR ''0''
                           @ toLowerCase (drop 2 walletAddress)"
    by simp
  have "length (toLowerCase (drop 2 walletAddress)) = length hex"
    using len by (simp add: toLowerCase_def)
  with shape le len have "length paddedAddress = 66"
    by simp
  with shape show ?thesis by simp
qed

lemma zeroPadValue_valid:
  assumes hex: "isBytesLike (toLowerCase walletAddress)" and len: "length walletAddress \<le> 66"
  shows "zeroPadValue (toLowerCase walletAddress) 32
           = Inr (''0x'' @ replicate (64 - length (drop 2 walletAddress)) CHR ''0''
                    @ toLowerCase (drop 2 walletAddress))"
proof -
  from len have "length (drop 2 (toLowerCase walletAddress)) div 2 \<le> 32"
    by (simp add: toLowerCase_def)
  with hex obtain p where p: "zeroPadValue (toLowerCase walletAddress) 32 = Inr p"
    by (simp add: zeroPadValue_def)
  from zeroPadValue_shape [OF p] p show ?thesis by simp
qed

lemma zeroPadValue_invalid:
  assumes "\<not> (isBytesLike (toLowerCase walletAddress) \<and> length walletAddress \<le> 66)"
  shows "\<exists>e. zeroPadValue (toLowerCase walletAddress) 32 = Inl e"
proof (cases "isBytesLike (toLowerCase walletAddress)")
  case False
  then show ?thesis by (simp add: zeroPadValue_def)
next
  case True
  define hex where "hex = drop 2 (toLowerCase walletAddress)"
  from True have "even (length hex)"
    unfolding hex_def by (auto simp add: isBytesLike_def split: list.splits)
  then obtain k where k: "length hex = 2 * k"
    by (rule evenE)
  from True assms have "66 < length walletAddress" by simp
  then have "64 < length hex"
    unfolding hex_def by (simp add: toLowerCase_def)
  with k have "32 < length hex div 2" by simp
  with True show ?thesis
    unfolding hex_def by (simp add: zeroPadValue_def)
qed

text \<open>
  C7.  On a supported chain, for a wallet address that is hex data of at most 32 bytes (66
  characters with the prefix) and any optional \<open>fromBlock\<close>, \<open>getTokenBalances\<close> sends
  the service one query and answers from what the service returns for it: the service's
  failure is the failure of the call, and its logs, decoded, are what is folded.  That
  query has \<open>fromBlock\<close> equal to the given value, or 0 when none is given, and one log
  selection with no address filter and three topic entries: the ERC20 Transfer hash, an
  unconstrained second topic, and as third topic, the place of the indexed \<^verbatim>\<open>to\<close>, the
  padded address, which is the lower-cased address put after zeros to 64 hex digits.  For
  any other wallet address the call fails whatever the service would answer: no query is
  built.
\<close>

theorem C7_token_balances_query_sent:
  assumes sup: "chainId \<in> fst ` set SUPPORTED_CHAINS"
  shows "(isBytesLike (toLowerCase walletAddress) \<and> length walletAddress \<le> 66 \<longrightarrow>
          (\<exists>client s1 paddedAddress.
             initialize (api_key env) chainId s = (Inr (), s1)
           \<and> getClient chainId s1 = Inr client
           \<and> paddedAddress = ''0x'' @ replicate (64 - length (drop 2 walletAddress)) CHR ''0''
                                @ toLowerCase (drop 2 walletAddress)
           \<and> length paddedAddress = 66
           \<and> getTokenBalances env chainId walletAddress fb s
               = (case get env client
                         \<lparr>fromBlock = (case fb of None \<Rightarrow> 0 | Some n \<Rightarrow> n),
                          toBlock = None,
                          fieldSelection =
                            \<lparr>fs_log = Some (Columns [''Address'', ''Data'', ''Topic0'', ''Topic1'', ''Topic2'', ''BlockNumber'']),
                             fs_block = Some (Columns [''Timestamp'']),
                             fs_transaction = None\<rparr>,
                          logs = Some [\<lparr>sel_address = None,
                                        sel_topics = Some [Some [ERC20_TRANSFER_TOPIC], None,
                                                           Some [paddedAddress]]\<rparr>],
                          transactions = None\<rparr> of
                    Inl e \<Rightarrow> (Inl e, s1)
                  | Inr response \<Rightarrow>
                      (case decoder_decodeLogs env s1 (data_logs response) of
                         Inl e \<Rightarrow> (Inl e, s1)
                       | Inr decodedLogs \<Rightarrow> (getTokenBalances_aggregate decodedLogs, s1)))))
       \<and> (\<not> (isBytesLike (toLowerCase walletAddress) \<and> length walletAddress \<le> 66) \<longrightarrow>
          (\<exists>e s1. \<forall>g. getTokenBalances (env\<lparr>get := g\<rparr>) chainId walletAddress fb s = (Inl e, s1)))"
proof -
  from sup obtain cfg where cfg: "map_of SUPPORTED_CHAINS chainId = Some cfg"
    by (metis map_of_eq_None_iff not_Some_eq)
  obtain s1 where init: "initialize (api_key env) chainId s = (Inr (), s1)"
    using initialize_supported_ok [OF cfg, of "api_key env" s]
    by (cases "initialize (api_key env) chainId s") auto
  from initialize_caches [OF cfg, of "api_key env" s] init
  obtain client where client: "getClient chainId s1 = Inr client"
    by (auto simp add: getClient_def)
  have fb: "fromBlock_or_0 fb = (case fb of None \<Rightarrow> 0 | Some n \<Rightarrow> n)"
    by (simp add: fromBlock_or_0_def split: option.splits)
  show ?thesis
  proof (intro conjI impI)
    assume valid: "isBytesLike (toLowerCase walletAddress) \<and> length walletAddress \<le> 66"
    define paddedAddress where "paddedAddress = ''0x'' @ replicate (64 - length (drop 2 walletAddress)) CHR ''0''
                                @ toLowerCase (drop 2 walletAddress)"
    from valid have pad: "zeroPadValue (toLowerCase walletAddress) 32 = Inr paddedAddress"
      unfolding paddedAddress_def by (simp add: zeroPadValue_valid)
    from zeroPadValue_shape [OF pad] have len: "length paddedAddress = 66"
      by (rule conjunct2)
    have run: "getTokenBalances env chainId walletAddress fb s
               = (case get env client
                         \<lparr>fromBlock = (case fb of None \<Rightarrow> 0 | Some n \<Rightarrow> n),
                          toBlock = None,
                          fieldSelection =
                            \<lparr>fs_log = Some (Columns [''Address'', ''Data'', ''Topic0'', ''Topic1'', ''Topic2'', ''BlockNumber'']),
                             fs_block = Some (Columns [''Timestamp'']),
                             fs_transaction = None\<rparr>,
                          logs = Some [\<lparr>sel_address = None,
                                        sel_topics = Some [Some [ERC20_TRANSFER_TOPIC], None,
                                                           Some [paddedAddress]]\<rparr>],
                          transactions = None\<rparr> of
                    Inl e \<Rightarrow> (Inl e, s1)
                  | Inr response \<Rightarrow>
                      (case decoder_decodeLogs env s1 (data_logs response) of
                         Inl e \<Rightarrow> (Inl e, s1)
                       | Inr decodedLogs \<Rightarrow> (getTokenBalances_aggregate decodedLogs, s1)))"
      by (simp add: getTokenBalances_def init pad client getTokenBalances_query_def fb)
    from init client len run paddedAddress_def
    show "\<exists>client s1 paddedAddress.
             initialize (api_key env) chainId s = (Inr (), s1)
           \<and> getClient chainId s1 = Inr client
           \<and> paddedAddress = ''0x'' @ replicate (64 - length (drop 2 walletAddress)) CHR ''0''
                                @ toLowerCase (drop 2 walletAddress)
           \<and> length paddedAddress = 66
           \<and> getTokenBalances env chainId walletAddress fb s
               = (case get env client
                         \<lparr>fromBlock = (case fb of None \<Rightarrow> 0 | Some n \<Rightarrow> n),
                          toBlock = None,
                          fieldSelection =
                            \<lparr>fs_log = Some (Columns [''Address'', ''Data'', ''Topic0'', ''Topic1'', ''Topic2'', ''BlockNumber'']),
                             fs_block = Some (Columns [''Timestamp'']),
                             fs_transaction = None\<rparr>,
                          logs = Some [\<lparr>sel_address = None,
                                        sel_topics = Some [Some [ERC20_TRANSFER_TOPIC], None,
                                                           Some [paddedAddress]]\<rparr>],
                          transactions = None\<rparr> of
                    Inl e \<Rightarrow> (Inl e, s1)
                  | Inr response \<Rightarrow>
                      (case decoder_decodeLogs env s1 (data_logs response) of
                         Inl e \<Rightarrow> (Inl e, s1)
                       | Inr decodedLogs \<Rightarrow> (getTokenBalances_aggregate decodedLogs, s1)))"
      by blast
  next
    assume "\<not> (isBytesLike (toLowerCase walletAddress) \<and> length walletAddress \<le> 66)"
    from zeroPadValue_invalid [OF this] obtain e where e: "zeroPadValue (toLowerCase walletAddress) 32 = Inl e"
      by blast
    have "\<forall>g. getTokenBalances (env\<lparr>get := g\<rparr>) chainId walletAddress fb s = (Inl e, s1)"
      by (simp add: getTokenBalances_def init e)
    then show "\<exists>e s1. \<forall>g. getTokenBalances (env\<lparr>get := g\<rparr>) chainId walletAddress fb s = (Inl e, s1)"
      by blast
  qed
qed

theorem C7_token_balances_query_sent_witness:
  "(1::int) \<in> fst ` set SUPPORTED_CHAINS
   \<and> isBytesLike (toLowerCase ''0xA0b86991c6218b36c1D19D4a2e9Eb0cE3606eB48'')
   \<and> length ''0xA0b86991c6218b36c1D19D4a2e9Eb0cE3606eB48'' \<le> 66
   \<and> fst (getTokenBalances example_probe_env 1 ''0xA0b86991c6218b36c1D19D4a2e9Eb0cE3606eB48''
            (Some 18000000) empty_registry)
       = Inl (Error ''the query of the example'')"
proof -
  have h: "(1::int) \<in> fst ` set SUPPORTED_CHAINS"
    by (simp add: SUPPORTED_CHAINS_def)
  have v1: "isBytesLike (toLowerCase ''0xA0b86991c6218b36c1D19D4a2e9Eb0cE3606eB48'')"
    by code_simp
  have v2: "length ''0xA0b86991c6218b36c1D19D4a2e9Eb0cE3606eB48'' \<le> 66"
    by simp
  have p: "''0x'' @ replicate (64 - length (drop 2 ''0xA0b86991c6218b36c1D19D4a2e9Eb0cE3606eB48'')) CHR ''0''
             @ toLowerCase (drop 2 ''0xA0b86991c6218b36c1D19D4a2e9Eb0cE3606eB48'')
           = ''0x000000000000000000000000a0b86991c6218b36c1d19d4a2e9eb0ce3606eb48''"
    by code_simp
  from C7_token_balances_query_sent [OF h, of "''0xA0b86991c6218b36c1D19D4a2e9Eb0cE3606eB48''"
      example_probe_env empty_registry "Some 18000000", THEN conjunct1, THEN mp, OF conjI [OF v1 v2]]
  obtain client s1 where
    run: "getTokenBalances example_probe_env 1 ''0xA0b86991c6218b36c1D19D4a2e9Eb0cE3606eB48'' (Some 18000000) empty_registry
               = (case get example_probe_env client
                         \<lparr>fromBlock = 18000000,
                          toBlock = None,
                          fieldSelection =
                            \<lparr>fs_log = Some (Columns [''Address'', ''Data'', ''Topic0'', ''Topic1'', ''Topic2'', ''BlockNumber'']),
                             fs_block = Some (Columns [''Timestamp'']),
                             fs_transaction = None\<rparr>,
                          logs = Some [\<lparr>sel_address = None,
                                        sel_topics = Some [Some [ERC20_TRANSFER_TOPIC], None,
                                                           Some [''0x000000000000000000000000a0b86991c6218b36c1d19d4a2e9eb0ce3606eb48'']]\<rparr>],
                          transactions = None\<rparr> of
                    Inl e \<Rightarrow> (Inl e, s1)
                  | Inr response \<Rightarrow>
                      (case decoder_decodeLogs example_probe_env s1 (data_logs response) of
                         Inl e \<Rightarrow> (Inl e, s1)
                       | Inr decodedLogs \<Rightarrow> (getTokenBalances_aggregate decodedLogs, s1)))"
    unfolding p by auto
  have "fst (getTokenBalances example_probe_env 1 ''0xA0b86991c6218b36c1D19D4a2e9Eb0cE3606eB48''
            (Some 18000000) empty_registry) = Inl (Error ''the query of the example'')"
    unfolding run by (simp add: example_probe_env_def ERC20_TRANSFER_TOPIC_def)
  with h v1 v2 show ?thesis by blast
qed

section \<open>Properties of the metadata probe\<close>

lemma decode_field_other:
  assumes "field \<noteq> ''name''" "field \<noteq> ''symbol''" "field \<noteq> ''decimals''" "field \<noteq> ''totalSupply''"
  shows "decode_field field cleanOutput md = Inr md"
  using assms by (simp add: decode_field_def)

lemma process_response_other:
  assumes "field \<noteq> ''name''" "field \<noteq> ''symbol''" "field \<noteq> ''decimals''" "field \<noteq> ''totalSupply''"
  shows "process_response field response md = md"
  using assms by (simp add: process_response_def decode_field_other split: option.splits)

lemma process_response_first_char:
  "process_response (field_of_index 0) r md = md"
  "process_response (field_of_index (Suc 0)) r md = md"
  "process_response (field_of_index (Suc (Suc 0))) r md = md"
  "process_response (field_of_index (Suc (Suc (Suc 0)))) r md = md"
  by (simp_all add: field_of_index_values process_response_other)

lemma promise_all_Inr:
  assumes "\<forall>x \<in> set xs. \<exists>y. x = Inr y"
  shows "\<exists>ys. promise_all xs = Inr ys \<and> length ys = length xs"
  using assms
proof (induction xs)
  case Nil
  show ?case by simp
next
  case (Cons x xs)
  then obtain y ys where "x = Inr y" and "promise_all xs = Inr ys" and "length ys = length xs"
    by auto
  then show ?case by simp
qed

lemma length_four:
  assumes "length xs = 4"
  shows "\<exists>a b c d. xs = [a, b, c, d]"
  using assms by (auto simp add: length_Suc_conv eval_nat_numeral)

lemma getTokenMetadata_defaults:
  assumes sup: "chainId \<in> fst ` set SUPPORTED_CHAINS"
    and calls: "\<forall>client. getClient chainId (snd (initialize (api_key env) chainId s)) = Inr client \<longrightarrow>
                  (\<forall>q \<in> set (getTokenMetadata_queries tokenAddress). \<exists>r. get env client q = Inr r)"
  shows "fst (getTokenMetadata env chainId tokenAddress s) = Inr (default_metadata tokenAddress)"
proof -
  from sup obtain cfg where cfg: "map_of SUPPORTED_CHAINS chainId = Some cfg"
    by (metis map_of_eq_None_iff not_Some_eq)
  obtain s1 where init: "initialize (api_key env) chainId s = (Inr (), s1)"
    using initialize_supported_ok [OF cfg, of "api_key env" s]
    by (cases "initialize (api_key env) chainId s") auto
  from initialize_caches [OF cfg, of "api_key env" s] init
  obtain client where client: "getClient chainId s1 = Inr client"
    by (auto simp add: getClient_def)
  let ?calls = "map (\<lambda>query. case getClient chainId s1 of Inl e \<Rightarrow> Inl e | Inr client \<Rightarrow> get env client query)
                     (getTokenMetadata_queries tokenAddress)"
  from calls init client have "\<forall>x \<in> set ?calls. \<exists>y. x = Inr y"
    by auto
  from promise_all_Inr [OF this] obtain responses where
    all: "promise_all ?calls = Inr responses" and "length responses = length ?calls"
    by blast
  then have "length responses = 4"
    by (simp add: getTokenMetadata_queries_def ERC20_INTERFACES_def)
  from length_four [OF this] obtain r0 r1 r2 r3 where "responses = [r0, r1, r2, r3]"
    by blast
  with init all show ?thesis
    by (simp add: getTokenMetadata_def process_response_first_char)
qed

lemma promise_all_Inl:
  assumes "Inl e \<in> set xs"
  shows "\<exists>e'. promise_all xs = Inl e'"
  using assms
proof (induction xs)
  case Nil
  then show ?case by simp
next
  case (Cons x xs)
  show ?case
  proof (cases x)
    case (Inl a)
    then show ?thesis by simp
  next
    case (Inr b)
    with Cons obtain e' where "promise_all xs = Inl e'" by auto
    with Inr show ?thesis by simp
  qed
qed

text \<open>
  C3.  The claim is that a \<^verbatim>\<open>symbol\<close> call returning the ABI encoding of the string
  \<^verbatim>\<open>USDC\<close> yields the symbol \<^verbatim>\<open>USDC\<close>.  The decoding of the
  \<^verbatim>\<open>symbol\<close> case does yield it (third part), but the loop never enters that case:
  \<open>field\<close> is the first character of the key, \<^verbatim>\<open>s\<close> at index 1 (second part), no
  case of the switch matches it, and the result keeps the default \<^verbatim>\<open>UNKNOWN\<close>
  (first part).
\<close>

theorem C3_symbol_stays_UNKNOWN:
  "fst (getTokenMetadata example_usdc_env 1 ''0xa0b86991c6218b36c1d19d4a2e9eb0ce3606eb48'' empty_registry)
     = Inr \<lparr>md_address = ''0xa0b86991c6218b36c1d19d4a2e9eb0ce3606eb48'', md_name = ''Unknown'',
            md_symbol = ''UNKNOWN'', md_decimals = Some 18, md_totalSupply = 0\<rparr>
   \<and> field_of_index 1 = ''s''
   \<and> decode_field ''symbol'' (js_slice example_usdc_payload 2 (int (length example_usdc_payload)))
        (default_metadata ''0xa0b86991c6218b36c1d19d4a2e9eb0ce3606eb48'')
     = Inr \<lparr>md_address = ''0xa0b86991c6218b36c1d19d4a2e9eb0ce3606eb48'', md_name = ''Unknown'',
            md_symbol = ''USDC'', md_decimals = Some 18, md_totalSupply = 0\<rparr>"
  by code_simp

text \<open>
  C8, as stated, fails: a service that fails on the \<^verbatim>\<open>decimals\<close> call alone makes the
  whole of \<open>getTokenMetadata\<close> fail with the wrapped error; the field is not left at 18
  and the other fields are not returned.
\<close>

theorem C8_failed_call_fails_all:
  "fst (getTokenMetadata example_failing_env 1 ''0xa0b86991c6218b36c1d19d4a2e9eb0ce3606eb48'' empty_registry)
     = Inl (Error ''Failed to fetch token metadata: request timed out'')"
  by code_simp

text \<open>
  C8, amended.  On a supported chain, when all four probe calls return, the call succeeds and
  every field whose call returned no transaction, no output or the empty data \<^verbatim>\<open>0x\<close>
  has its default (name \<^verbatim>\<open>Unknown\<close>, symbol \<^verbatim>\<open>UNKNOWN\<close>, decimals 18, total supply
  0); an empty return for \<^verbatim>\<open>decimals\<close> gives 18.  One round of the loop never fails:
  an exception of the decoding, and an empty return, leave the values as they were.  When
  one of the probe calls fails, the whole call fails with the error
  \<^verbatim>\<open>Failed to fetch token metadata: ...\<close>.
\<close>

theorem C8_empty_returns_keep_defaults:
  assumes sup: "chainId \<in> fst ` set SUPPORTED_CHAINS"
  shows "((\<forall>client. getClient chainId (snd (initialize (api_key (env :: 'r env)) chainId s)) = Inr client \<longrightarrow>
            (\<forall>q \<in> set (getTokenMetadata_queries tokenAddress). \<exists>r. get env client q = Inr r)) \<longrightarrow>
          (\<exists>md. fst (getTokenMetadata env chainId tokenAddress s) = Inr md
             \<and> md_address md = tokenAddress
             \<and> (\<forall>client r. getClient chainId (snd (initialize (api_key env) chainId s)) = Inr client
                   \<and> get env client (getTokenMetadata_queries tokenAddress ! 0) = Inr r \<and> empty_return r
                   \<longrightarrow> md_name md = ''Unknown'')
             \<and> (\<forall>client r. getClient chainId (snd (initialize (api_key env) chainId s)) = Inr client
                   \<and> get env client (getTokenMetadata_queries tokenAddress ! 1) = Inr r \<and> empty_return r
                   \<longrightarrow> md_symbol md = ''UNKNOWN'')
             \<and> (\<forall>client r. getClient chainId (snd (initialize (api_key env) chainId s)) = Inr client
                   \<and> get env client (getTokenMetadata_queries tokenAddress ! 2) = Inr r \<and> empty_return r
                   \<longrightarrow> md_decimals md = Some 18)
             \<and> (\<forall>client r. getClient chainId (snd (initialize (api_key env) chainId s)) = Inr client
                   \<and> get env client (getTokenMetadata_queries tokenAddress ! 3) = Inr r \<and> empty_return r
                   \<longrightarrow> md_totalSupply md = 0)))
       \<and> (\<forall>field (r :: 'r QueryResponse) md0 out e. first_output r = Some out
             \<and> decode_field field (js_slice out 2 (int (length out))) md0 = Inl e
             \<longrightarrow> process_response field r md0 = md0)
       \<and> (\<forall>field (r :: 'r QueryResponse) md0. empty_return r \<longrightarrow> process_response field r md0 = md0)
       \<and> ((\<exists>client q e. getClient chainId (snd (initialize (api_key env) chainId s)) = Inr client
              \<and> q \<in> set (getTokenMetadata_queries tokenAddress) \<and> get env client q = Inl e) \<longrightarrow>
          (\<exists>e. fst (getTokenMetadata env chainId tokenAddress s)
                  = Inl (Error (''Failed to fetch token metadata: '' @ message e))))"
proof (intro conjI impI allI)
  assume calls: "\<forall>client. getClient chainId (snd (initialize (api_key env) chainId s)) = Inr client \<longrightarrow>
            (\<forall>q \<in> set (getTokenMetadata_queries tokenAddress). \<exists>r. get env client q = Inr r)"
  have "fst (getTokenMetadata env chainId tokenAddress s) = Inr (default_metadata tokenAddress)"
    using sup calls by (rule getTokenMetadata_defaults)
  then show "\<exists>md. fst (getTokenMetadata env chainId tokenAddress s) = Inr md
             \<and> md_address md = tokenAddress
             \<and> (\<forall>client r. getClient chainId (snd (initialize (api_key env) chainId s)) = Inr client
                   \<and> get env client (getTokenMetadata_queries tokenAddress ! 0) = Inr r \<and> empty_return r
                   \<longrightarrow> md_name md = ''Unknown'')
             \<and> (\<forall>client r. getClient chainId (snd (initialize (api_key env) chainId s)) = Inr client
                   \<and> get env client (getTokenMetadata_queries tokenAddress ! 1) = Inr r \<and> empty_return r
                   \<longrightarrow> md_symbol md = ''UNKNOWN'')
             \<and> (\<forall>client r. getClient chainId (snd (initialize (api_key env) chainId s)) = Inr client
                   \<and> get env client (getTokenMetadata_queries tokenAddress ! 2) = Inr r \<and> empty_return r
                   \<longrightarrow> md_decimals md = Some 18)
             \<and> (\<forall>client r. getClient chainId (snd (initialize (api_key env) chainId s)) = Inr client
                   \<and> get env client (getTokenMetadata_queries tokenAddress ! 3) = Inr r \<and> empty_return r
                   \<longrightarrow> md_totalSupply md = 0)"
    by (simp add: default_metadata_def)
next
  fix field :: string and r :: "'r QueryResponse" and md0 out e
  assume "first_output r = Some out \<and> decode_field field (js_slice out 2 (int (length out))) md0 = Inl e"
  then show "process_response field r md0 = md0"
    by (simp add: process_response_def)
next
  fix field :: string and r :: "'r QueryResponse" and md0
  assume "empty_return r"
  then show "process_response field r md0 = md0"
    by (auto simp add: process_response_def empty_return_def)
next
  assume "\<exists>client q e. getClient chainId (snd (initialize (api_key env) chainId s)) = Inr client
              \<and> q \<in> set (getTokenMetadata_queries tokenAddress) \<and> get env client q = Inl e"
  then obtain client q e where client: "getClient chainId (snd (initialize (api_key env) chainId s)) = Inr client"
    and q: "q \<in> set (getTokenMetadata_queries tokenAddress)" and e: "get env client q = Inl e"
    by blast
  from sup obtain cfg where cfg: "map_of SUPPORTED_CHAINS chainId = Some cfg"
    by (metis map_of_eq_None_iff not_Some_eq)
  obtain s1 where init: "initialize (api_key env) chainId s = (Inr (), s1)"
    using initialize_supported_ok [OF cfg, of "api_key env" s]
    by (cases "initialize (api_key env) chainId s") auto
  let ?calls = "map (\<lambda>query. case getClient chainId s1 of Inl e \<Rightarrow> Inl e | Inr client \<Rightarrow> get env client query)
                     (getTokenMetadata_queries tokenAddress)"
  from client init q e have "Inl e \<in> set ?calls"
    by force
  from promise_all_Inl [OF this] obtain e' where "promise_all ?calls = Inl e'"
    by blast
  with init have "fst (getTokenMetadata env chainId tokenAddress s)
                  = Inl (Error (''Failed to fetch token metadata: '' @ message e'))"
    by (simp add: getTokenMetadata_def)
  then show "\<exists>e. fst (getTokenMetadata env chainId tokenAddress s)
                  = Inl (Error (''Failed to fetch token metadata: '' @ message e))"
    by blast
qed

theorem C8_empty_returns_keep_defaults_witness:
  "(1::int) \<in> fst ` set SUPPORTED_CHAINS
   \<and> get example_empty_env \<lparr>client_id = 0, client_url = ''https://eth.hypersync.xyz'', bearerToken = ''your_api_key''\<rparr>
        (getTokenMetadata_queries ''0xa0b86991c6218b36c1d19d4a2e9eb0ce3606eb48'' ! 2)
       = Inr \<lparr>data_logs = [], data_transactions = Some [\<lparr>tx_output = Some ''0x''\<rparr>], archiveHeight = 100\<rparr>
   \<and> fst (getTokenMetadata example_empty_env 1 ''0xa0b86991c6218b36c1d19d4a2e9eb0ce3606eb48'' empty_registry)
       = Inr \<lparr>md_address = ''0xa0b86991c6218b36c1d19d4a2e9eb0ce3606eb48'', md_name = ''Unknown'',
              md_symbol = ''UNKNOWN'', md_decimals = Some 18, md_totalSupply = 0\<rparr>"
proof -
  have h: "(1::int) \<in> fst ` set SUPPORTED_CHAINS"
    by (simp add: SUPPORTED_CHAINS_def)
  have calls: "\<forall>client. getClient 1 (snd (initialize (api_key example_empty_env) 1 empty_registry)) = Inr client \<longrightarrow>
            (\<forall>q \<in> set (getTokenMetadata_queries ''0xa0b86991c6218b36c1d19d4a2e9eb0ce3606eb48'').
               \<exists>r. get example_empty_env client q = Inr r)"
    by (simp add: example_empty_env_def)
  have g: "get example_empty_env \<lparr>client_id = 0, client_url = ''https://eth.hypersync.xyz'', bearerToken = ''your_api_key''\<rparr>
        (getTokenMetadata_queries ''0xa0b86991c6218b36c1d19d4a2e9eb0ce3606eb48'' ! 2)
       = Inr \<lparr>data_logs = [], data_transactions = Some [\<lparr>tx_output = Some ''0x''\<rparr>], archiveHeight = 100\<rparr>"
    by code_simp
  have r0: "fst (getTokenMetadata example_empty_env 1 ''0xa0b86991c6218b36c1d19d4a2e9eb0ce3606eb48'' empty_registry)
       = Inr \<lparr>md_address = ''0xa0b86991c6218b36c1d19d4a2e9eb0ce3606eb48'', md_name = ''Unknown'',
              md_symbol = ''UNKNOWN'', md_decimals = Some 18, md_totalSupply = 0\<rparr>"
    by code_simp
  from C8_empty_returns_keep_defaults [OF h, of example_empty_env empty_registry
        "''0xa0b86991c6218b36c1d19d4a2e9eb0ce3606eb48''", THEN conjunct1, THEN mp, OF calls]
  obtain md where "fst (getTokenMetadata example_empty_env 1 ''0xa0b86991c6218b36c1d19d4a2e9eb0ce3606eb48'' empty_registry) = Inr md"
    by blast
  with r0 have r: "fst (getTokenMetadata example_empty_env 1 ''0xa0b86991c6218b36c1d19d4a2e9eb0ce3606eb48'' empty_registry)
       = Inr \<lparr>md_address = ''0xa0b86991c6218b36c1d19d4a2e9eb0ce3606eb48'', md_name = ''Unknown'',
              md_symbol = ''UNKNOWN'', md_decimals = Some 18, md_totalSupply = 0\<rparr>"
    by simp
  show ?thesis
    apply (intro conjI)
      apply (rule h)
     apply (rule g)
    apply (rule r)
    done
qed

section \<open>What the folds make of a decoded batch\<close>

lemma getNFTBalances_loop_unchanged: "getNFTBalances_loop m decodedLogs = Inr m"
proof (induction decodedLogs)
  case Nil
  show ?case by simp
next
  case (Cons x xs)
  then show ?case by (cases x) (simp_all add: log_topic0_def)
qed

lemma getNFTBalances_aggregate_empty: "getNFTBalances_aggregate decodedLogs = Inr []"
  by (simp add: getNFTBalances_aggregate_def getNFTBalances_loop_unchanged)

lemma getTokenBalances_loop_one_key:
  assumes "getTokenBalances_loop m decodedLogs = Inr m'" and "m = [] \<or> (\<exists>v. m = [(None, v)])"
  shows "m' = [] \<or> (\<exists>v. m' = [(None, v)])"
  using assms
proof (induction m decodedLogs rule: getTokenBalances_loop.induct)
  case (1 balances)
  then show ?case by simp
next
  case (2 balances rest)
  then show ?case by simp
next
  case (3 balances log rest)
  from "3.prems"(1) obtain amount vs acc where b: "body log = amount # vs"
    and a: "add_val (get_or_0 balances (log_address log)) amount = Inr acc"
    and run: "getTokenBalances_loop (AList.update (log_address log) acc balances) rest = Inr m'"
    by (auto split: list.splits sum.splits)
  from "3.prems"(2) have "AList.update (log_address log) acc balances = [(None, acc)]"
    by (auto simp add: log_address_def)
  with "3.IH" [OF b a] run show ?case by simp
qed

lemma getTokenBalances_aggregate_one_entry:
  assumes "getTokenBalances_aggregate decodedLogs = Inr out"
  shows "out = [] \<or> (\<exists>v. out = [\<lparr>token = None, balance = v\<rparr>])"
proof -
  from assms obtain m where run: "getTokenBalances_loop [] decodedLogs = Inr m"
    and out: "out = getTokenBalances_entries m"
    by (auto simp add: getTokenBalances_aggregate_def split: sum.splits)
  from getTokenBalances_loop_one_key [OF run] have "m = [] \<or> (\<exists>v. m = [(None, v)])"
    by simp
  with out show ?thesis
    by (auto simp add: getTokenBalances_entries_def)
qed

text \<open>
  C1.  The claim is that \<open>getTokenBalances\<close> gives one entry for each emitting contract,
  with the sum of its amounts: \<open>(A, 150)\<close> and \<open>(B, 7)\<close> for two events of token \<open>A\<close>
  with amounts 100 and 50 and one event of token \<open>B\<close> with amount 7.  Here the service
  returns those three Transfer logs, and decoded they are three events with the bodies
  100, 50 and 7 (first part).  The loop files each amount under \<^verbatim>\<open>log.address\<close>, which
  a decoded event does not have: all three are added under the one key
  \<^verbatim>\<open>undefined\<close>, and the answer is the single entry with token \<^verbatim>\<open>undefined\<close> and
  balance 157 (second part).
\<close>

theorem C1_all_amounts_under_undefined:
  "map raw_address example_transfer_logs
     = [''0xaaaaaaaaaaaaaaaaaaaaaaaaaaaaaaaaaaaaaaaa'', ''0xaaaaaaaaaaaaaaaaaaaaaaaaaaaaaaaaaaaaaaaa'',
        ''0xbbbbbbbbbbbbbbbbbbbbbbbbbbbbbbbbbbbbbbbb'']
   \<and> map example_decode example_transfer_logs
     = [Some \<lparr>indexed = [StringVal ''0x2222222222222222222222222222222222222222'', StringVal ''0x1111111111111111111111111111111111111111''], body = [BigIntVal 100]\<rparr>,
        Some \<lparr>indexed = [StringVal ''0x2222222222222222222222222222222222222222'', StringVal ''0x1111111111111111111111111111111111111111''], body = [BigIntVal 50]\<rparr>,
        Some \<lparr>indexed = [StringVal ''0x2222222222222222222222222222222222222222'', StringVal ''0x1111111111111111111111111111111111111111''], body = [BigIntVal 7]\<rparr>]
   \<and> getTokenBalances example_transfer_env 1 ''0x1111111111111111111111111111111111111111'' None empty_registry
     = (Inr [\<lparr>token = None, balance = BigIntSum 157\<rparr>],
        \<lparr>clients = [(1, \<lparr>client_id = 0, client_url = ''https://eth.hypersync.xyz'', bearerToken = ''your_api_key''\<rparr>)],
           decoder = Some \<lparr>decoder_id = 1, signatures = EVENT_SIGNATURES\<rparr>, constructed = 2\<rparr>)"
  by code_simp

text \<open>
  C2.  The claim is that \<open>getNFTBalances\<close> keeps, for each contract address and token id,
  the holding of the last event: balance 1 for an ERC721 Transfer, the value field for an
  ERC1155 TransferSingle.  The loop chooses its branch by \<^verbatim>\<open>log.topic0\<close>, which a
  decoded event does not have, so neither comparison ever holds and the Map is never
  written: the fold of every decoded batch is the empty list (first part).  Here the
  service returns two ERC721 Transfer logs for token 5 of one contract; decoded, the token
  id is among the indexed parameters and the body is empty (second part); the answer is
  the empty list, where the claim has one entry (third part).
\<close>

theorem C2_no_holding_recorded:
  "getNFTBalances_aggregate decodedLogs = Inr []
   \<and> map example_decode example_nft_logs
     = [Some \<lparr>indexed = [StringVal ''0x2222222222222222222222222222222222222222'', StringVal ''0x1111111111111111111111111111111111111111'', BigIntVal 5], body = []\<rparr>,
        Some \<lparr>indexed = [StringVal ''0x1111111111111111111111111111111111111111'', StringVal ''0x1111111111111111111111111111111111111111'', BigIntVal 5], body = []\<rparr>]
   \<and> getNFTBalances example_nft_env 1 ''0x1111111111111111111111111111111111111111'' None empty_registry
     = (Inr [],
        \<lparr>clients = [(1, \<lparr>client_id = 0, client_url = ''https://eth.hypersync.xyz'', bearerToken = ''your_api_key''\<rparr>)],
           decoder = Some \<lparr>decoder_id = 1, signatures = EVENT_SIGNATURES\<rparr>, constructed = 2\<rparr>)"
proof (intro conjI)
  show "getNFTBalances_aggregate decodedLogs = Inr []"
    by (rule getNFTBalances_aggregate_empty)
  show "map example_decode example_nft_logs
     = [Some \<lparr>indexed = [StringVal ''0x2222222222222222222222222222222222222222'', StringVal ''0x1111111111111111111111111111111111111111'', BigIntVal 5], body = []\<rparr>,
        Some \<lparr>indexed = [StringVal ''0x1111111111111111111111111111111111111111'', StringVal ''0x1111111111111111111111111111111111111111'', BigIntVal 5], body = []\<rparr>]"
    by code_simp
  show "getNFTBalances example_nft_env 1 ''0x1111111111111111111111111111111111111111'' None empty_registry
     = (Inr [],
        \<lparr>clients = [(1, \<lparr>client_id = 0, client_url = ''https://eth.hypersync.xyz'', bearerToken = ''your_api_key''\<rparr>)],
           decoder = Some \<lparr>decoder_id = 1, signatures = EVENT_SIGNATURES\<rparr>, constructed = 2\<rparr>)"
    by code_simp
qed

text \<open>
  C10.  The claim is that, the ERC721 and the ERC20 Transfer topic being one hash, every
  decoded log with that first topic is recorded as an ERC721 holding with balance 1.  The
  two constants are the same string (first part).  But no decoded log is recorded: the
  decoded events have no \<^verbatim>\<open>topic0\<close> to compare, the loop leaves the Map as it finds
  it for every decoded batch (second part), and for the three ERC20 Transfer logs of the
  example, whose first topic is that hash (third part), \<open>getNFTBalances\<close> answers with the
  empty list (fourth part).
\<close>

theorem C10_shared_topic_not_filed:
  "ERC721_TRANSFER_TOPIC = ERC20_TRANSFER_TOPIC
   \<and> getNFTBalances_loop nftBalances decodedLogs = Inr nftBalances
   \<and> map (\<lambda>r. hd (raw_topics r)) example_transfer_logs
     = [ERC721_TRANSFER_TOPIC, ERC721_TRANSFER_TOPIC, ERC721_TRANSFER_TOPIC]
   \<and> getNFTBalances example_transfer_env 1 ''0x1111111111111111111111111111111111111111'' None empty_registry
     = (Inr [],
        \<lparr>clients = [(1, \<lparr>client_id = 0, client_url = ''https://eth.hypersync.xyz'', bearerToken = ''your_api_key''\<rparr>)],
           decoder = Some \<lparr>decoder_id = 1, signatures = EVENT_SIGNATURES\<rparr>, constructed = 2\<rparr>)"
proof (intro conjI)
  show "ERC721_TRANSFER_TOPIC = ERC20_TRANSFER_TOPIC"
    by (simp add: ERC721_TRANSFER_TOPIC_def ERC20_TRANSFER_TOPIC_def)
  show "getNFTBalances_loop nftBalances decodedLogs = Inr nftBalances"
    by (rule getNFTBalances_loop_unchanged)
  show "map (\<lambda>r. hd (raw_topics r)) example_transfer_logs
     = [ERC721_TRANSFER_TOPIC, ERC721_TRANSFER_TOPIC, ERC721_TRANSFER_TOPIC]"
    by code_simp
  show "getNFTBalances example_transfer_env 1 ''0x1111111111111111111111111111111111111111'' None empty_registry
     = (Inr [],
        \<lparr>clients = [(1, \<lparr>client_id = 0, client_url = ''https://eth.hypersync.xyz'', bearerToken = ''your_api_key''\<rparr>)],
           decoder = Some \<lparr>decoder_id = 1, signatures = EVENT_SIGNATURES\<rparr>, constructed = 2\<rparr>)"
    by code_simp
qed

end
